theory Spec2Isabelle
  imports Complex_Main "HOL-Library.AList" "HOL-Library.Char_ord" "HOL-Library.List_Lexorder"
begin

section \<open>COVID-19 economic impact analysis: the script as a state-passing function\<close>

text \<open>
  The program is one linear Python script (\<^verbatim>\<open>economic_impact_analysis.py\<close>). It seeds
  numpy's global generator, creates an output directory when it is missing, simulates
  a table of businesses, derives a decline percentage, writes the table as CSV and saves
  four charts.

  Conventions of the embedding:
  \<^item> Python floats are modelled by \<^typ>\<open>real\<close>: rounding, infinities and NaN are not
    represented. Where numpy or pandas would produce a non-finite value (a division by
    zero) the model returns an error value instead.
  \<^item> numpy's generator is an external library. Its per-element primitives are a parameter
    (\<open>np_random\<close> below); the batched draws of the script are loops over them that thread
    the generator state, as numpy's legacy \<^verbatim>\<open>RandomState\<close> does.
  \<^item> every exception the library calls of the script can raise is a value of
    \<open>py_error\<close>; a run returns \<open>py_error + world\<close>.
  \<^item> the file system, the generator state and standard output form the \<open>world\<close> record,
    passed through the script and returned updated.
\<close>

subsection \<open>Errors\<close>

datatype py_error =
    ValueError
  | KeyError
  | TypeError
  | DivisionByZero
  | Misaligned
  | FileExistsError
  | OSError

definition bind_err :: "py_error + 'a \<Rightarrow> ('a \<Rightarrow> py_error + 'b) \<Rightarrow> py_error + 'b" where
  "bind_err m f = (case m of Inl e \<Rightarrow> Inl e | Inr x \<Rightarrow> f x)"

subsection \<open>numpy.random\<close>

text \<open>
  The generator primitives. \<open>seed\<close> builds the state from the seed alone
  (\<^verbatim>\<open>np.random.seed\<close> re-initialises the global state); the other three draw one
  value and return the next state: one element of a non-empty list of options, one
  standard normal deviate, one sample of the unit interval.
\<close>

record 'g np_random =
  seed :: "nat \<Rightarrow> 'g"
  choice1 :: "string list \<Rightarrow> 'g \<Rightarrow> string \<times> 'g"
  standard_normal :: "'g \<Rightarrow> real \<times> 'g"
  random_sample :: "'g \<Rightarrow> real \<times> 'g"

text \<open>A batched draw of \<open>n\<close> values (numpy's \<^verbatim>\<open>size\<close>): the loop that fills the output array.\<close>

fun draws :: "('g \<Rightarrow> 'a \<times> 'g) \<Rightarrow> nat \<Rightarrow> 'g \<Rightarrow> 'a list \<times> 'g" where
  "draws f 0 g = ([], g)"
| "draws f (Suc n) g =
     (case f g of (x, g1) \<Rightarrow> (case draws f n g1 of (xs, g2) \<Rightarrow> (x # xs, g2)))"

text \<open>\<^verbatim>\<open>np.random.choice(a, size=n)\<close>: raises ValueError on an empty \<open>a\<close>.\<close>

definition np_random_choice ::
  "'g np_random \<Rightarrow> string list \<Rightarrow> nat \<Rightarrow> 'g \<Rightarrow> py_error + (string list \<times> 'g)" where
  "np_random_choice R a n g =
     (if a = [] then Inl ValueError else Inr (draws (choice1 R a) n g))"

text \<open>\<^verbatim>\<open>np.random.normal(loc, scale, size)\<close>: raises ValueError on a negative scale;
  each value is \<open>loc + scale * z\<close> for a standard normal deviate \<open>z\<close>.\<close>

definition np_random_normal ::
  "'g np_random \<Rightarrow> real \<Rightarrow> real \<Rightarrow> nat \<Rightarrow> 'g \<Rightarrow> py_error + (real list \<times> 'g)" where
  "np_random_normal R loc scale n g =
     (if scale < 0 then Inl ValueError
      else (case draws (standard_normal R) n g of
              (zs, g') \<Rightarrow> Inr (map (\<lambda>z. loc + scale * z) zs, g')))"

text \<open>\<^verbatim>\<open>np.random.uniform(low, high, size)\<close>: each value is
  \<open>low + (high - low) * u\<close> for a sample \<open>u\<close> of the unit interval.\<close>

definition np_random_uniform ::
  "'g np_random \<Rightarrow> real \<Rightarrow> real \<Rightarrow> nat \<Rightarrow> 'g \<Rightarrow> py_error + (real list \<times> 'g)" where
  "np_random_uniform R low high n g =
     (case draws (random_sample R) n g of
        (us, g') \<Rightarrow> Inr (map (\<lambda>u. low + (high - low) * u) us, g'))"

subsection \<open>numpy arrays\<close>

text \<open>\<^verbatim>\<open>np.arange(start, stop)\<close> on integers: \<open>start, ..., stop - 1\<close>.\<close>

definition np_arange :: "int \<Rightarrow> int \<Rightarrow> int list" where
  "np_arange start stop = [start..stop - 1]"

text \<open>\<^verbatim>\<open>np.clip(a, a_min, a_max)\<close>, a bound \<^verbatim>\<open>None\<close> being absent.\<close>

definition clip1 :: "real option \<Rightarrow> real option \<Rightarrow> real \<Rightarrow> real" where
  "clip1 a_min a_max x =
     (let y = (case a_min of None \<Rightarrow> x | Some lo \<Rightarrow> max lo x)
      in (case a_max of None \<Rightarrow> y | Some hi \<Rightarrow> min hi y))"

definition np_clip :: "real list \<Rightarrow> real option \<Rightarrow> real option \<Rightarrow> real list" where
  "np_clip a a_min a_max = map (clip1 a_min a_max) a"

text \<open>\<^verbatim>\<open>a * b\<close> on one-dimensional arrays: elementwise; an array of length one is
  broadcast; any other difference of lengths raises ValueError.\<close>

definition np_multiply :: "real list \<Rightarrow> real list \<Rightarrow> py_error + real list" where
  "np_multiply a b =
     (if length a = length b then Inr (map2 (*) a b)
      else (case (a, b) of
              ([x], _) \<Rightarrow> Inr (map (\<lambda>y. x * y) b)
            | (_, [y]) \<Rightarrow> Inr (map (\<lambda>x. x * y) a)
            | _ \<Rightarrow> Inl ValueError))"

subsection \<open>Data simulation (lines 38-52 of the script)\<close>

definition sectors :: "string list" where
  "sectors = [''Retail'', ''Hospitality'', ''Manufacturing'', ''Services'', ''Healthcare'']"

definition n_businesses :: nat where
  "n_businesses = 1000"

record simulation =
  business_ids :: "int list"
  business_sectors :: "string list"
  pre_covid_revenue :: "real list"
  drop_factors :: "real list"
  post_covid_revenue :: "real list"

text \<open>
  The simulator for a record count \<open>n\<close> (the script fixes \<open>n = n_businesses\<close>), from
  generator state \<open>g\<close>. The three draws happen in the order of the source: sectors,
  then the normal revenues, then the drop factors.
\<close>

definition simulate :: "'g np_random \<Rightarrow> nat \<Rightarrow> 'g \<Rightarrow> py_error + (simulation \<times> 'g)" where
  "simulate R n g =
     (let ids = np_arange 1 (int n + 1) in
      bind_err (np_random_choice R sectors n g) (\<lambda>(secs, g1).
      bind_err (np_random_normal R 500 150 n g1) (\<lambda>(raw, g2).
      let pre = np_clip raw (Some 100) None in
      bind_err (np_random_uniform R (3 / 10) 1 n g2) (\<lambda>(drops, g3).
      bind_err (np_multiply pre drops) (\<lambda>post.
      Inr (\<lparr>business_ids = ids, business_sectors = secs, pre_covid_revenue = pre,
            drop_factors = drops, post_covid_revenue = post\<rparr>, g3))))))"

subsection \<open>pandas: columns, frames and series arithmetic\<close>

text \<open>
  A DataFrame is its columns in insertion order, each a name and a typed array. The
  default \<^verbatim>\<open>RangeIndex\<close> is implicit: rows are addressed by position.
\<close>

datatype column = IntCol "int list" | StrCol "string list" | FloatCol "real list"

fun col_len :: "column \<Rightarrow> nat" where
  "col_len (IntCol xs) = length xs"
| "col_len (StrCol xs) = length xs"
| "col_len (FloatCol xs) = length xs"

type_synonym dataframe = "(string \<times> column) list"

text \<open>\<^verbatim>\<open>pd.DataFrame(dict)\<close>: raises ValueError unless all arrays have one length.\<close>

definition pd_DataFrame :: "(string \<times> column) list \<Rightarrow> py_error + dataframe" where
  "pd_DataFrame d =
     (case d of
        [] \<Rightarrow> Inr []
      | (k, c) # rest \<Rightarrow>
          if list_all (\<lambda>(k', c'). col_len c' = col_len c) rest then Inr d
          else Inl ValueError)"

definition df_nrows :: "dataframe \<Rightarrow> nat" where
  "df_nrows df = (case df of [] \<Rightarrow> 0 | (k, c) # rest \<Rightarrow> col_len c)"

text \<open>\<^verbatim>\<open>df[name]\<close>: raises KeyError for a missing column.\<close>

definition df_getitem :: "dataframe \<Rightarrow> string \<Rightarrow> py_error + column" where
  "df_getitem df name = (case map_of df name of None \<Rightarrow> Inl KeyError | Some c \<Rightarrow> Inr c)"

text \<open>\<^verbatim>\<open>df[name] = series\<close>: replaces the column in place or appends it as the last
  column; a series of another length than the frame is an error value here (pandas
  would align it on the index and fill with NaN).\<close>

definition df_setitem :: "dataframe \<Rightarrow> string \<Rightarrow> column \<Rightarrow> py_error + dataframe" where
  "df_setitem df name c =
     (if df \<noteq> [] \<and> col_len c \<noteq> df_nrows df then Inl Misaligned
      else Inr (AList.update name c df))"

text \<open>The numeric content of a column; arithmetic on a string column raises TypeError.
  Integer columns are read as floats (the model does not track the dtype of a result).\<close>

fun as_float :: "column \<Rightarrow> py_error + real list" where
  "as_float (IntCol xs) = Inr (map real_of_int xs)"
| "as_float (FloatCol xs) = Inr xs"
| "as_float (StrCol xs) = Inl TypeError"

fun as_str :: "column \<Rightarrow> py_error + string list" where
  "as_str (StrCol xs) = Inr xs"
| "as_str (IntCol xs) = Inl TypeError"
| "as_str (FloatCol xs) = Inl TypeError"

text \<open>\<^verbatim>\<open>a - b\<close> on two series with the same index.\<close>

definition series_sub :: "column \<Rightarrow> column \<Rightarrow> py_error + column" where
  "series_sub a b =
     bind_err (as_float a) (\<lambda>xs.
     bind_err (as_float b) (\<lambda>ys.
     if length xs \<noteq> length ys then Inl Misaligned
     else Inr (FloatCol (map2 (-) xs ys))))"

text \<open>\<^verbatim>\<open>a / b\<close> on two series with the same index. Where a divisor is zero pandas
  stores inf or NaN and warns; the model has no such values and returns
  \<open>DivisionByZero\<close>, so that a successful result means every division was a proper one.\<close>

definition series_div :: "column \<Rightarrow> column \<Rightarrow> py_error + column" where
  "series_div a b =
     bind_err (as_float a) (\<lambda>xs.
     bind_err (as_float b) (\<lambda>ys.
     if length xs \<noteq> length ys then Inl Misaligned
     else if list_ex (\<lambda>y. y = 0) ys then Inl DivisionByZero
     else Inr (FloatCol (map2 (/) xs ys))))"

text \<open>\<^verbatim>\<open>a * k\<close> for a scalar \<open>k\<close>.\<close>

definition series_mul_scalar :: "column \<Rightarrow> real \<Rightarrow> py_error + column" where
  "series_mul_scalar a k = bind_err (as_float a) (\<lambda>xs. Inr (FloatCol (map (\<lambda>x. x * k) xs)))"

text \<open>\<^verbatim>\<open>series.max()\<close>: \<open>None\<close> stands for the NaN of an empty series.\<close>

fun series_max :: "real list \<Rightarrow> real option" where
  "series_max [] = None"
| "series_max (x # xs) = Some (fold max xs x)"

subsection \<open>The frame and the derived metric (lines 54-64)\<close>

definition make_frame :: "simulation \<Rightarrow> py_error + dataframe" where
  "make_frame sim =
     pd_DataFrame
       [(''business_id'', IntCol (business_ids sim)),
        (''sector'', StrCol (business_sectors sim)),
        (''pre_covid_revenue'', FloatCol (pre_covid_revenue sim)),
        (''post_covid_revenue'', FloatCol (post_covid_revenue sim))]"

definition derive :: "dataframe \<Rightarrow> py_error + dataframe" where
  "derive df =
     bind_err (df_getitem df ''pre_covid_revenue'') (\<lambda>pre.
     bind_err (df_getitem df ''post_covid_revenue'') (\<lambda>post.
     bind_err (series_sub pre post) (\<lambda>diff.
     bind_err (df_getitem df ''pre_covid_revenue'') (\<lambda>pre'.
     bind_err (series_div diff pre') (\<lambda>ratio.
     bind_err (series_mul_scalar ratio 100) (\<lambda>decline.
     df_setitem df ''decline_percent'' decline))))))"

text \<open>The table of a simulation: the frame with its derived column.\<close>

definition table_of :: "simulation \<Rightarrow> py_error + dataframe" where
  "table_of sim = bind_err (make_frame sim) derive"

subsection \<open>Grouped mean (line 96)\<close>

text \<open>
  \<^verbatim>\<open>df.groupby("sector")["decline_percent"].mean().reset_index()\<close>: one pass over the
  rows accumulates a running sum and a count per key, the keys are sorted, and each
  mean is the sum divided by the count. Only keys that occur in the data get a row.
\<close>

fun group_add :: "string \<Rightarrow> real \<Rightarrow> (string \<times> real \<times> nat) list \<Rightarrow> (string \<times> real \<times> nat) list" where
  "group_add k v [] = [(k, v, 1)]"
| "group_add k v ((k', s, c) # acc) =
     (if k = k' then (k', s + v, Suc c) # acc else (k', s, c) # group_add k v acc)"

definition group_sums :: "string list \<Rightarrow> real list \<Rightarrow> (string \<times> real \<times> nat) list" where
  "group_sums keys vals = foldl (\<lambda>acc (k, v). group_add k v acc) [] (zip keys vals)"

definition groupby_mean :: "string list \<Rightarrow> real list \<Rightarrow> (string \<times> real) list" where
  "groupby_mean keys vals =
     map (\<lambda>(k, s, c). (k, s / real c)) (sort_key fst (group_sums keys vals))"

definition avg_decline :: "dataframe \<Rightarrow> py_error + dataframe" where
  "avg_decline df =
     bind_err (df_getitem df ''sector'') (\<lambda>sc.
     bind_err (as_str sc) (\<lambda>keys.
     bind_err (df_getitem df ''decline_percent'') (\<lambda>dc.
     bind_err (as_float dc) (\<lambda>vals.
     if length keys \<noteq> length vals then Inl Misaligned
     else (let g = groupby_mean keys vals
           in Inr [(''sector'', StrCol (map fst g)), (''decline_percent'', FloatCol (map snd g))])))))"

text \<open>
  The mean as the specification words it: the arithmetic mean of the values of exactly
  the records whose key is \<open>k\<close>, recomputed from the restricted sublist.
\<close>

definition restricted :: "string list \<Rightarrow> real list \<Rightarrow> string \<Rightarrow> real list" where
  "restricted keys vals k = map snd (filter (\<lambda>(k', v). k' = k) (zip keys vals))"

definition restricted_mean :: "string list \<Rightarrow> real list \<Rightarrow> string \<Rightarrow> real" where
  "restricted_mean keys vals k =
     sum_list (restricted keys vals k) / real (length (restricted keys vals k))"

subsection \<open>Files, directories and standard output\<close>

datatype cell = IntCell int | StrCell string | FloatCell real

fun col_cells :: "column \<Rightarrow> cell list" where
  "col_cells (IntCol xs) = map IntCell xs"
| "col_cells (StrCol xs) = map StrCell xs"
| "col_cells (FloatCol xs) = map FloatCell xs"

text \<open>What a written file holds: the CSV table (header row, data rows) or the data a
  chart was drawn from. The rendering to text or pixels is not modelled.\<close>

datatype artifact =
    CsvFile "string list" "cell list list"
  | Histogram "real list" nat bool
  | Boxplot "(string \<times> real) list"
  | Barplot "(string \<times> real) list"
  | Scatter "(real \<times> real \<times> string) list" "real option"

record 'g world =
  rng :: 'g
  dirs :: "string list"
  files :: "(string \<times> artifact) list"
  stdout :: "string list"

definition os_path_exists :: "'g world \<Rightarrow> string \<Rightarrow> bool" where
  "os_path_exists w p \<longleftrightarrow> p \<in> set (dirs w) \<or> map_of (files w) p \<noteq> None"

text \<open>\<^verbatim>\<open>os.makedirs(p)\<close> without \<^verbatim>\<open>exist_ok\<close>: raises FileExistsError when the path
  exists. The script's path has a single component, so no intermediate directory is
  involved.\<close>

definition os_makedirs :: "string \<Rightarrow> 'g world \<Rightarrow> py_error + 'g world" where
  "os_makedirs p w =
     (if os_path_exists w p then Inl FileExistsError else Inr (w\<lparr>dirs := dirs w @ [p]\<rparr>))"

text \<open>\<^verbatim>\<open>os.path.join\<close> and \<^verbatim>\<open>os.path.dirname\<close> for POSIX paths.\<close>

definition os_path_join :: "string \<Rightarrow> string \<Rightarrow> string" where
  "os_path_join a b =
     (if b \<noteq> [] \<and> hd b = CHR ''/'' then b
      else if a = [] \<or> last a = CHR ''/'' then a @ b
      else a @ ''/'' @ b)"

definition os_path_dirname :: "string \<Rightarrow> string" where
  "os_path_dirname p =
     (let head = rev (dropWhile (\<lambda>c. c \<noteq> CHR ''/'') (rev p))
      in if head \<noteq> [] \<and> \<not> list_all (\<lambda>c. c = CHR ''/'') head
         then rev (dropWhile (\<lambda>c. c = CHR ''/'') (rev head))
         else head)"

text \<open>Writing a file creates or overwrites it. It fails when the parent directory is
  missing or the path is a directory; the current directory (the empty parent) exists.\<close>

definition write_file :: "string \<Rightarrow> artifact \<Rightarrow> 'g world \<Rightarrow> py_error + 'g world" where
  "write_file p a w =
     (if (os_path_dirname p = [] \<or> os_path_dirname p \<in> set (dirs w)) \<and> p \<notin> set (dirs w)
      then Inr (w\<lparr>files := AList.update p a (files w)\<rparr>)
      else Inl OSError)"

definition print :: "string \<Rightarrow> 'g world \<Rightarrow> 'g world" where
  "print line w = w\<lparr>stdout := stdout w @ [line]\<rparr>"

text \<open>\<^verbatim>\<open>df.to_csv(path, index=False)\<close>: a header row of the column names, then one row
  per record in frame order, without the index.\<close>

definition to_csv :: "dataframe \<Rightarrow> artifact" where
  "to_csv df = CsvFile (map fst df) (transpose (map (\<lambda>(k, c). col_cells c) df))"

subsection \<open>Charts (lines 73-121)\<close>

definition sns_histplot :: "column \<Rightarrow> nat \<Rightarrow> bool \<Rightarrow> py_error + artifact" where
  "sns_histplot c bins kde = bind_err (as_float c) (\<lambda>xs. Inr (Histogram xs bins kde))"

definition sns_boxplot :: "string \<Rightarrow> string \<Rightarrow> dataframe \<Rightarrow> py_error + artifact" where
  "sns_boxplot x y d =
     bind_err (df_getitem d x) (\<lambda>xc. bind_err (as_str xc) (\<lambda>xs.
     bind_err (df_getitem d y) (\<lambda>yc. bind_err (as_float yc) (\<lambda>ys.
     Inr (Boxplot (zip xs ys))))))"

definition sns_barplot :: "string \<Rightarrow> string \<Rightarrow> dataframe \<Rightarrow> py_error + artifact" where
  "sns_barplot x y d =
     bind_err (df_getitem d x) (\<lambda>xc. bind_err (as_str xc) (\<lambda>xs.
     bind_err (df_getitem d y) (\<lambda>yc. bind_err (as_float yc) (\<lambda>ys.
     Inr (Barplot (zip xs ys))))))"

definition sns_scatterplot ::
  "string \<Rightarrow> string \<Rightarrow> string \<Rightarrow> dataframe \<Rightarrow> real option \<Rightarrow> py_error + artifact" where
  "sns_scatterplot x y hue d max_rev =
     bind_err (df_getitem d x) (\<lambda>xc. bind_err (as_float xc) (\<lambda>xs.
     bind_err (df_getitem d y) (\<lambda>yc. bind_err (as_float yc) (\<lambda>ys.
     bind_err (df_getitem d hue) (\<lambda>hc. bind_err (as_str hc) (\<lambda>hs.
     Inr (Scatter (zip xs (zip ys hs)) max_rev)))))))"

subsection \<open>The script\<close>

definition output_dir :: string where
  "output_dir = ''output_images''"

text \<open>Lines 33-36: create the output directory if it does not exist.\<close>

definition setup_output_dir :: "'g world \<Rightarrow> py_error + 'g world" where
  "setup_output_dir w =
     (if \<not> os_path_exists w output_dir
      then bind_err (os_makedirs output_dir w) (\<lambda>w'.
           Inr (print (''Created output directory: '' @ output_dir) w'))
      else Inr w)"

text \<open>Saving one artifact and printing its progress line.\<close>

definition save :: "string \<Rightarrow> string \<Rightarrow> artifact \<Rightarrow> 'g world \<Rightarrow> py_error + 'g world" where
  "save label name a w =
     (let path = os_path_join output_dir name
      in bind_err (write_file path a w) (\<lambda>w'. Inr (print (label @ path) w')))"

text \<open>The paths of the five artifacts the script saves, in the order of the source
  (lines 67, 79, 90, 102 and 118).\<close>

definition artifact_paths :: "string list" where
  "artifact_paths =
     map (os_path_join output_dir)
       [''covid_impact_data.csv'', ''hist_decline_percent.png'',
        ''boxplot_decline_by_sector.png'', ''barplot_avg_decline_by_sector.png'',
        ''scatter_pre_vs_post_revenue.png'']"

text \<open>Plot 3: the bar chart is drawn from the grouped means.\<close>

definition bar_chart :: "dataframe \<Rightarrow> py_error + artifact" where
  "bar_chart df = bind_err (avg_decline df) (sns_barplot ''sector'' ''decline_percent'')"

definition final_message :: string where
  "final_message =
     ''All images have been saved in the 'output_images' folder. You can now download them from that folder.''"

definition export_all :: "dataframe \<Rightarrow> 'g world \<Rightarrow> py_error + 'g world" where
  "export_all df w =
     bind_err (save ''Data saved to: '' ''covid_impact_data.csv'' (to_csv df) w) (\<lambda>w1.
     bind_err (df_getitem df ''decline_percent'') (\<lambda>dc.
     bind_err (sns_histplot dc 30 True) (\<lambda>hist.
     bind_err (save ''Histogram saved to: '' ''hist_decline_percent.png'' hist w1) (\<lambda>w2.
     bind_err (sns_boxplot ''sector'' ''decline_percent'' df) (\<lambda>box.
     bind_err (save ''Boxplot saved to: '' ''boxplot_decline_by_sector.png'' box w2) (\<lambda>w3.
     bind_err (bar_chart df) (\<lambda>bar.
     bind_err (save ''Bar plot saved to: '' ''barplot_avg_decline_by_sector.png'' bar w3) (\<lambda>w4.
     bind_err (df_getitem df ''pre_covid_revenue'') (\<lambda>pc.
     bind_err (as_float pc) (\<lambda>pre.
     bind_err (sns_scatterplot ''pre_covid_revenue'' ''post_covid_revenue'' ''sector'' df
                 (series_max pre)) (\<lambda>sc.
     bind_err (save ''Scatter plot saved to: '' ''scatter_pre_vs_post_revenue.png'' sc w4) (\<lambda>w5.
     Inr (print final_message w5)))))))))))))"

text \<open>Lines 29-52: seed the generator, make sure the output directory exists, simulate.\<close>

definition prepare :: "'g np_random \<Rightarrow> nat \<Rightarrow> 'g world \<Rightarrow> py_error + (simulation \<times> 'g world)" where
  "prepare R n w0 =
     (let w1 = w0\<lparr>rng := seed R 42\<rparr> in
      bind_err (setup_output_dir w1) (\<lambda>w2.
      bind_err (simulate R n (rng w2)) (\<lambda>(sim, g).
      Inr (sim, w2\<lparr>rng := g\<rparr>))))"

text \<open>The whole run for a record count \<open>n\<close>; the script itself is \<open>main\<close>.\<close>

definition script :: "'g np_random \<Rightarrow> nat \<Rightarrow> 'g world \<Rightarrow> py_error + 'g world" where
  "script R n w0 =
     bind_err (prepare R n w0) (\<lambda>(sim, w).
     bind_err (table_of sim) (\<lambda>df.
     export_all df w))"

definition main :: "'g np_random \<Rightarrow> 'g world \<Rightarrow> py_error + 'g world" where
  "main R w0 = script R n_businesses w0"

subsection \<open>A concrete generator\<close>

text \<open>
  A small counter-based generator on which the model can be run: the state is a
  counter, each draw reads it and increments it. Its normal deviates range over
  \<open>-3, ..., 3\<close> (so that some revenues fall below the clamp) and its unit samples over
  \<open>0, 0.1, ..., 0.9\<close>.
\<close>

definition counter_random :: "nat np_random" where
  "counter_random =
     \<lparr>seed = (\<lambda>s. s),
      choice1 = (\<lambda>a g. (a ! (g mod length a), Suc g)),
      standard_normal = (\<lambda>g. (real (g mod 7) - 3, Suc g)),
      random_sample = (\<lambda>g. (real (g mod 10) / 10, Suc g))\<rparr>"

definition empty_world :: "nat world" where
  "empty_world = \<lparr>rng = 0, dirs = [], files = [], stdout = []\<rparr>"

text \<open>A run of the simulator on the counter generator, four records from state 0, and
  its table.\<close>

definition sim4 :: simulation where
  "sim4 = \<lparr>business_ids = [1, 2, 3, 4],
      business_sectors = [''Retail'', ''Hospitality'', ''Manufacturing'', ''Services''],
      pre_covid_revenue = [650, 800, 950, 100],
      drop_factors = [43 / 50, 93 / 100, 3 / 10, 37 / 100],
      post_covid_revenue = [559, 744, 285, 37]\<rparr>"

definition table4 :: dataframe where
  "table4 =
     [(''business_id'', IntCol [1, 2, 3, 4]),
      (''sector'', StrCol [''Retail'', ''Hospitality'', ''Manufacturing'', ''Services'']),
      (''pre_covid_revenue'', FloatCol [650, 800, 950, 100]),
      (''post_covid_revenue'', FloatCol [559, 744, 285, 37]),
      (''decline_percent'', FloatCol [14, 7, 70, 63])]"

text \<open>A whole run on the counter generator with three records, from an empty file
  system: the records drawn after seeding with 42, and the world the run ends in.\<close>

definition sim3 :: simulation where
  "sim3 = \<lparr>business_ids = [1, 2, 3],
      business_sectors = [''Manufacturing'', ''Services'', ''Healthcare''],
      pre_covid_revenue = [500, 650, 800],
      drop_factors = [43 / 50, 93 / 100, 3 / 10],
      post_covid_revenue = [430, 1209 / 2, 240]\<rparr>"

definition csv3 :: artifact where
  "csv3 =
     CsvFile
       [''business_id'', ''sector'', ''pre_covid_revenue'', ''post_covid_revenue'',
        ''decline_percent'']
       [[IntCell 1, StrCell ''Manufacturing'', FloatCell 500, FloatCell 430, FloatCell 14],
        [IntCell 2, StrCell ''Services'', FloatCell 650, FloatCell (1209 / 2), FloatCell 7],
        [IntCell 3, StrCell ''Healthcare'', FloatCell 800, FloatCell 240, FloatCell 70]]"

definition files3 :: "(string \<times> artifact) list" where
  "files3 =
     [(''output_images/covid_impact_data.csv'', csv3),
      (''output_images/hist_decline_percent.png'', Histogram [14, 7, 70] 30 True),
      (''output_images/boxplot_decline_by_sector.png'',
       Boxplot [(''Manufacturing'', 14), (''Services'', 7), (''Healthcare'', 70)]),
      (''output_images/barplot_avg_decline_by_sector.png'',
       Barplot [(''Healthcare'', 70), (''Manufacturing'', 14), (''Services'', 7)]),
      (''output_images/scatter_pre_vs_post_revenue.png'',
       Scatter [(500, 430, ''Manufacturing''), (650, 1209 / 2, ''Services''),
                (800, 240, ''Healthcare'')] (Some 800))]"

text \<open>The progress lines of a run, after the optional line about the directory.\<close>

definition progress_lines :: "string list" where
  "progress_lines =
     [''Data saved to: output_images/covid_impact_data.csv'',
      ''Histogram saved to: output_images/hist_decline_percent.png'',
      ''Boxplot saved to: output_images/boxplot_decline_by_sector.png'',
      ''Bar plot saved to: output_images/barplot_avg_decline_by_sector.png'',
      ''Scatter plot saved to: output_images/scatter_pre_vs_post_revenue.png'',
      final_message]"

definition world3 :: "nat world" where
  "world3 =
     \<lparr>rng = 51, dirs = [''output_images''], files = files3,
      stdout = ''Created output directory: output_images'' # progress_lines\<rparr>"

text \<open>A world in which the output directory exists already and holds a file of its
  own, next to another directory with a file, with an arbitrary generator state and
  earlier output.\<close>

definition used_world :: "nat world" where
  "used_world =
     \<lparr>rng = 7, dirs = [''data'', ''output_images''],
      files = [(''data/notes.txt'', Boxplot []), (''output_images/keep_me.txt'', Barplot [])],
      stdout = [''earlier'']\<rparr>"

definition used_world3 :: "nat world" where
  "used_world3 =
     \<lparr>rng = 51, dirs = [''data'', ''output_images''],
      files = (''data/notes.txt'', Boxplot []) # (''output_images/keep_me.txt'', Barplot []) # files3,
      stdout = ''earlier'' # progress_lines\<rparr>"

text \<open>A small frame in which one sector occurs twice.\<close>

definition frame3 :: dataframe where
  "frame3 =
     [(''sector'', StrCol [''Retail'', ''Hospitality'', ''Retail'']),
      (''decline_percent'', FloatCol [10, 20, 40])]"

section \<open>Verification\<close>

subsection \<open>Basic facts about the simulator\<close>

lemma bind_err_Inr: "bind_err (Inr x) f = f x"
  by (simp add: bind_err_def)

lemma length_draws: "length (fst (draws f n g)) = n"
  by (induction n arbitrary: g) (simp_all add: case_prod_beta)

lemma draws_all:
  assumes "\<And>s. P (fst (f s))"
  shows "\<forall>x\<in>set (fst (draws f n g)). P x"
  using assms by (induction n arbitrary: g) (simp_all add: case_prod_beta)

lemma sectors_nonempty: "sectors \<noteq> []"
  by (simp add: sectors_def)

lemma simulate_eq:
  "simulate R n g =
     (let d1 = draws (choice1 R sectors) n g;
          d2 = draws (standard_normal R) n (snd d1);
          d3 = draws (random_sample R) n (snd d2);
          pre = map (\<lambda>z. max 100 (500 + 150 * z)) (fst d2);
          drops = map (\<lambda>u. 3 / 10 + 7 / 10 * u) (fst d3)
      in Inr (\<lparr>business_ids = [1..int n], business_sectors = fst d1,
               pre_covid_revenue = pre, drop_factors = drops,
               post_covid_revenue = map2 (*) pre drops\<rparr>, snd d3))"
  by (simp add: simulate_def np_random_choice_def np_random_normal_def np_random_uniform_def
      np_multiply_def np_clip_def clip1_def np_arange_def bind_err_Inr Let_def
      length_draws case_prod_beta comp_def sectors_nonempty)

lemma simulate_shape:
  assumes "simulate R n g = Inr (sim, g')"
  shows "length (business_ids sim) = n" "length (business_sectors sim) = n"
    "length (pre_covid_revenue sim) = n" "length (drop_factors sim) = n"
    "post_covid_revenue sim = map2 (*) (pre_covid_revenue sim) (drop_factors sim)"
    "\<forall>p\<in>set (pre_covid_revenue sim). 100 \<le> p"
    "business_ids sim = [1..int n]"
  using assms by (auto simp add: simulate_eq Let_def length_draws)

lemma simulate_drops:
  assumes "simulate R n g = Inr (sim, g')"
  shows "\<exists>s. drop_factors sim = map (\<lambda>u. 3 / 10 + 7 / 10 * u) (fst (draws (random_sample R) n s))"
  using assms by (auto simp add: simulate_eq Let_def)

subsection \<open>Facts about the table\<close>

lemma decline_formula:
  "length xs = length ys \<Longrightarrow>
   map (\<lambda>x. x * 100) (map2 (/) (map2 (-) xs ys) xs) =
   map2 (\<lambda>p q. (p - q) / p * (100::real)) xs ys"
  by (induction xs ys rule: list_induct2) simp_all

lemma table_of_eq:
  assumes "length (business_ids sim) = length (pre_covid_revenue sim)"
    and "length (business_sectors sim) = length (pre_covid_revenue sim)"
    and "length (post_covid_revenue sim) = length (pre_covid_revenue sim)"
    and "\<forall>p\<in>set (pre_covid_revenue sim). p \<noteq> 0"
  shows "table_of sim =
     Inr [(''business_id'', IntCol (business_ids sim)),
          (''sector'', StrCol (business_sectors sim)),
          (''pre_covid_revenue'', FloatCol (pre_covid_revenue sim)),
          (''post_covid_revenue'', FloatCol (post_covid_revenue sim)),
          (''decline_percent'', FloatCol (map2 (\<lambda>p q. (p - q) / p * 100)
             (pre_covid_revenue sim) (post_covid_revenue sim)))]"
proof -
  have "map2 (\<lambda>p q. (p - q) / p * 100) (pre_covid_revenue sim) (post_covid_revenue sim) =
        map (\<lambda>x. x * 100) (map2 (/) (map2 (-) (pre_covid_revenue sim) (post_covid_revenue sim))
          (pre_covid_revenue sim))"
    using assms(3) by (simp only: decline_formula)
  then show ?thesis
    using assms
    by (simp add: table_of_def make_frame_def pd_DataFrame_def derive_def df_getitem_def
        series_sub_def series_div_def series_mul_scalar_def df_setitem_def df_nrows_def
        bind_err_Inr list_ex_iff)
qed

lemma table_of_simulate:
  assumes "simulate R n g = Inr (sim, g')"
  shows "table_of sim =
     Inr [(''business_id'', IntCol (business_ids sim)),
          (''sector'', StrCol (business_sectors sim)),
          (''pre_covid_revenue'', FloatCol (pre_covid_revenue sim)),
          (''post_covid_revenue'', FloatCol (post_covid_revenue sim)),
          (''decline_percent'', FloatCol (map2 (\<lambda>p q. (p - q) / p * 100)
             (pre_covid_revenue sim) (post_covid_revenue sim)))]"
proof (rule table_of_eq)
  note sh = simulate_shape [OF assms]
  show "length (business_ids sim) = length (pre_covid_revenue sim)"
    using sh(1) sh(3) by simp
  show "length (business_sectors sim) = length (pre_covid_revenue sim)"
    using sh(2) sh(3) by simp
  show "length (post_covid_revenue sim) = length (pre_covid_revenue sim)"
    using sh(3) sh(4) sh(5) by simp
  show "\<forall>p\<in>set (pre_covid_revenue sim). p \<noteq> 0"
    using sh(6) by fastforce
qed

lemma decline_column:
  assumes "simulate R n g = Inr (sim, g')"
    and "table_of sim = Inr df"
    and "df_getitem df ''decline_percent'' = Inr (FloatCol ds)"
  shows "ds = map2 (\<lambda>p q. (p - q) / p * 100) (pre_covid_revenue sim) (post_covid_revenue sim)"
  using assms(2,3) unfolding table_of_simulate [OF assms(1)]
  by (auto simp add: df_getitem_def)

lemma decline_nth:
  assumes "simulate R n g = Inr (sim, g')" and "i < n"
  shows "map2 (\<lambda>p q. (p - q) / p * 100) (pre_covid_revenue sim) (post_covid_revenue sim) ! i =
         (1 - drop_factors sim ! i) * 100"
proof -
  note sh = simulate_shape [OF assms(1)]
  have p: "pre_covid_revenue sim ! i \<noteq> 0"
    using sh(3) sh(6) assms(2) by (metis nth_mem not_numeral_le_zero)
  have q: "post_covid_revenue sim ! i = pre_covid_revenue sim ! i * drop_factors sim ! i"
    using sh(3) sh(4) sh(5) assms(2) by simp
  have "map2 (\<lambda>p q. (p - q) / p * 100) (pre_covid_revenue sim) (post_covid_revenue sim) ! i =
        (pre_covid_revenue sim ! i - post_covid_revenue sim ! i) / pre_covid_revenue sim ! i * 100"
    using sh(3) sh(4) sh(5) assms(2) by simp
  also have "\<dots> = (1 - drop_factors sim ! i) * 100"
    using p by (simp add: q field_simps)
  finally show ?thesis .
qed

lemma drops_range:
  assumes "\<And>s. P (fst (random_sample R s))"
    and "simulate R n g = Inr (sim, g')" and "i < n"
  shows "\<exists>u. P u \<and> drop_factors sim ! i = 3 / 10 + 7 / 10 * u"
proof -
  obtain s where d: "drop_factors sim = map (\<lambda>u. 3 / 10 + 7 / 10 * u) (fst (draws (random_sample R) n s))"
    using simulate_drops [OF assms(2)] by blast
  have "P (fst (draws (random_sample R) n s) ! i)"
    using draws_all [of P "random_sample R" n s] assms(1,3) by (simp add: length_draws)
  then show ?thesis
    using d assms(3) by (auto simp add: length_draws)
qed

subsection \<open>The counter generator\<close>

lemma counter_unit: "0 \<le> fst (random_sample counter_random s) \<and> fst (random_sample counter_random s) < 1"
proof -
  have "s mod 10 < 10" by simp
  then have "real (s mod 10) < 10" by (metis of_nat_less_iff of_nat_numeral)
  then show ?thesis by (simp add: counter_random_def)
qed

lemma simulate_counter_4: "simulate counter_random 4 0 = Inr (sim4, 12)"
  by code_simp

lemma table_of_sim4: "table_of sim4 = Inr table4"
  by code_simp

lemma decline_of_table4: "df_getitem table4 ''decline_percent'' = Inr (FloatCol [14, 7, 70, 63])"
  by code_simp

subsection \<open>Claims about the simulator\<close>

text \<open>
  C8. The simulator has no error conditions: for every record count \<open>n\<close>, zero
  included, every generator and every generator state, the simulation of sectors,
  pre-shock revenues, drop factors and post-shock revenues succeeds and yields \<open>n\<close>
  records.
\<close>

theorem simulate_succeeds:
  "\<exists>sim g'. simulate R n g = Inr (sim, g') \<and>
     length (business_ids sim) = n \<and> length (business_sectors sim) = n \<and>
     length (pre_covid_revenue sim) = n \<and> length (drop_factors sim) = n \<and>
     length (post_covid_revenue sim) = n"
  by (simp add: simulate_eq Let_def length_draws)

text \<open>
  C3. The pre-shock revenue is the batch of \<open>n\<close> normal draws with mean 500 and
  standard deviation 150 (taken after the sector draws), where every value below 100 is
  replaced by 100 and every other value is kept, without an upper bound; so every
  pre-shock revenue is at least 100.
\<close>

theorem pre_revenue_clamped:
  assumes "simulate R n g = Inr (sim, g')"
  shows "pre_covid_revenue sim =
           map (\<lambda>z. if 500 + 150 * z < 100 then 100 else 500 + 150 * z)
             (fst (draws (standard_normal R) n (snd (draws (choice1 R sectors) n g)))) \<and>
         (\<forall>x\<in>set (pre_covid_revenue sim). 100 \<le> x)"
proof -
  have "pre_covid_revenue sim =
          map (\<lambda>z. max 100 (500 + 150 * z))
            (fst (draws (standard_normal R) n (snd (draws (choice1 R sectors) n g))))"
    using assms by (auto simp add: simulate_eq Let_def)
  then show ?thesis
    by (auto simp add: max_def)
qed

theorem pre_revenue_clamped_witness:
  "simulate counter_random 4 0 = Inr (sim4, 12) \<and>
   pre_covid_revenue sim4 =
     map (\<lambda>z. if 500 + 150 * z < 100 then 100 else 500 + 150 * z)
       (fst (draws (standard_normal counter_random) 4
          (snd (draws (choice1 counter_random sectors) 4 0)))) \<and>
   list_all (\<lambda>x. 100 \<le> x) (pre_covid_revenue sim4)"
  using simulate_counter_4 pre_revenue_clamped [OF simulate_counter_4]
  by (simp add: list_all_iff)

text \<open>
  C2. The post-shock revenue is the elementwise product of the pre-shock revenue and
  the drop factor: the three vectors have length \<open>n\<close>, and at every position the
  post-shock revenue equals the pre-shock revenue times the drop factor. In the model
  the equality is exact.
\<close>

theorem product_elementwise:
  assumes "simulate R n g = Inr (sim, g')"
  shows "length (pre_covid_revenue sim) = n \<and> length (drop_factors sim) = n \<and>
         length (post_covid_revenue sim) = n \<and>
         post_covid_revenue sim = map2 (*) (pre_covid_revenue sim) (drop_factors sim) \<and>
         (\<forall>i<n. post_covid_revenue sim ! i = pre_covid_revenue sim ! i * drop_factors sim ! i)"
  using assms by (auto simp add: simulate_eq Let_def length_draws)

theorem product_elementwise_witness:
  "simulate counter_random 4 0 = Inr (sim4, 12) \<and>
   length (pre_covid_revenue sim4) = 4 \<and> length (drop_factors sim4) = 4 \<and>
   length (post_covid_revenue sim4) = 4 \<and>
   post_covid_revenue sim4 = map2 (*) (pre_covid_revenue sim4) (drop_factors sim4) \<and>
   post_covid_revenue sim4 ! 2 = pre_covid_revenue sim4 ! 2 * drop_factors sim4 ! 2"
  using simulate_counter_4 product_elementwise [OF simulate_counter_4]
  by simp

subsection \<open>Claims about the derived metric\<close>

text \<open>
  C1. For every generated record the decline percentage lies in the closed interval
  from 0 to 70, provided the generator's unit samples lie between 0 and 1: then the
  drop factor lies between 0.3 and 1, and the decline is \<open>(1 - drop_factor) * 100\<close>.
  Floats are read as reals.
\<close>

theorem decline_percent_range:
  assumes unit: "\<And>s. 0 \<le> fst (random_sample R s) \<and> fst (random_sample R s) \<le> 1"
    and sim: "simulate R n g = Inr (sim, g')"
    and tab: "table_of sim = Inr df"
    and col: "df_getitem df ''decline_percent'' = Inr (FloatCol ds)"
  shows "length ds = n \<and> (\<forall>d\<in>set ds. 0 \<le> d \<and> d \<le> 70)"
proof -
  note sh = simulate_shape [OF sim]
  have ds: "ds = map2 (\<lambda>p q. (p - q) / p * 100) (pre_covid_revenue sim) (post_covid_revenue sim)"
    by (rule decline_column [OF sim tab col])
  have len: "length ds = n"
    using sh(3) sh(4) sh(5) by (simp add: ds)
  have "0 \<le> ds ! i \<and> ds ! i \<le> 70" if lt: "i < n" for i
  proof -
    obtain u where u: "0 \<le> u \<and> u \<le> 1" "drop_factors sim ! i = 3 / 10 + 7 / 10 * u"
      using drops_range [of "\<lambda>u. 0 \<le> u \<and> u \<le> 1", OF unit sim lt] by blast
    have "ds ! i = (1 - drop_factors sim ! i) * 100"
      unfolding ds by (rule decline_nth [OF sim lt])
    then show ?thesis using u by simp
  qed
  then have "\<forall>d\<in>set ds. 0 \<le> d \<and> d \<le> 70"
    using len by (metis in_set_conv_nth)
  then show ?thesis using len by blast
qed

theorem decline_percent_range_witness:
  "(\<forall>s. 0 \<le> fst (random_sample counter_random s) \<and> fst (random_sample counter_random s) \<le> 1) \<and>
   simulate counter_random 4 0 = Inr (sim4, 12) \<and>
   table_of sim4 = Inr table4 \<and>
   df_getitem table4 ''decline_percent'' = Inr (FloatCol [14, 7, 70, 63]) \<and>
   length [14, 7, 70, 63 :: real] = 4 \<and>
   list_all (\<lambda>d. 0 \<le> d \<and> d \<le> 70) [14, 7, 70, 63 :: real]"
proof -
  have u: "0 \<le> fst (random_sample counter_random s) \<and> fst (random_sample counter_random s) \<le> 1" for s
    using counter_unit [of s] by simp
  from decline_percent_range [of counter_random, OF u simulate_counter_4 table_of_sim4 decline_of_table4]
  have "list_all (\<lambda>d. 0 \<le> d \<and> d \<le> 70) [14, 7, 70, 63 :: real]"
    by (simp add: list_all_iff)
  then show ?thesis
    using u simulate_counter_4 table_of_sim4 decline_of_table4 by simp
qed

text \<open>
  The division of the metric is a real branch of the model: on a frame whose pre-shock
  revenue is zero the derivation returns \<open>DivisionByZero\<close>.
\<close>

lemma derive_zero_divisor:
  "derive [(''pre_covid_revenue'', FloatCol [0]), (''post_covid_revenue'', FloatCol [0])] =
     Inl DivisionByZero"
  by code_simp

text \<open>
  C4. The metric deriver computes \<open>decline_percent = (pre - post) / pre * 100\<close> for
  each record, and the division is safe: after the clamp no pre-shock revenue is zero,
  so the table of a simulation is never \<open>DivisionByZero\<close>; it exists and its
  \<open>decline_percent\<close> column holds the formula's values.
\<close>

theorem division_safe:
  assumes "simulate R n g = Inr (sim, g')"
  shows "(\<forall>p\<in>set (pre_covid_revenue sim). p \<noteq> 0) \<and>
         table_of sim \<noteq> Inl DivisionByZero \<and>
         (\<exists>df. table_of sim = Inr df \<and>
            df_getitem df ''decline_percent'' =
              Inr (FloatCol (map2 (\<lambda>p q. (p - q) / p * 100)
                     (pre_covid_revenue sim) (post_covid_revenue sim))))"
proof -
  have nz: "\<forall>p\<in>set (pre_covid_revenue sim). p \<noteq> 0"
    using simulate_shape(6) [OF assms] by fastforce
  have tab: "table_of sim =
     Inr [(''business_id'', IntCol (business_ids sim)),
          (''sector'', StrCol (business_sectors sim)),
          (''pre_covid_revenue'', FloatCol (pre_covid_revenue sim)),
          (''post_covid_revenue'', FloatCol (post_covid_revenue sim)),
          (''decline_percent'', FloatCol (map2 (\<lambda>p q. (p - q) / p * 100)
             (pre_covid_revenue sim) (post_covid_revenue sim)))]"
    by (rule table_of_simulate [OF assms])
  show ?thesis
    using nz by (simp add: tab df_getitem_def)
qed

theorem division_safe_witness:
  "simulate counter_random 4 0 = Inr (sim4, 12) \<and>
   list_all (\<lambda>p. p \<noteq> 0) (pre_covid_revenue sim4) \<and>
   table_of sim4 \<noteq> Inl DivisionByZero \<and>
   (\<exists>df. table_of sim4 = Inr df \<and>
      df_getitem df ''decline_percent'' =
        Inr (FloatCol (map2 (\<lambda>p q. (p - q) / p * 100)
               (pre_covid_revenue sim4) (post_covid_revenue sim4))))"
  using simulate_counter_4 division_safe [OF simulate_counter_4]
  by (simp add: list_all_iff)

text \<open>
  C9. When the generator's unit samples lie in the half-open interval from 0 (included)
  to 1 (excluded), as numpy documents, every drop factor is below 1, so for every
  generated record the post-shock revenue is strictly below the pre-shock revenue and
  the decline percentage is strictly positive: the lower bound 0 is never attained.
  Floats are read as reals.
\<close>

theorem decline_strictly_positive:
  assumes unit: "\<And>s. 0 \<le> fst (random_sample R s) \<and> fst (random_sample R s) < 1"
    and sim: "simulate R n g = Inr (sim, g')"
    and tab: "table_of sim = Inr df"
    and col: "df_getitem df ''decline_percent'' = Inr (FloatCol ds)"
  shows "(\<forall>i<n. post_covid_revenue sim ! i < pre_covid_revenue sim ! i) \<and>
         (\<forall>f\<in>set (drop_factors sim). 3 / 10 \<le> f \<and> f < 1) \<and>
         (\<forall>d\<in>set ds. 0 < d)"
proof -
  note sh = simulate_shape [OF sim]
  have ds: "ds = map2 (\<lambda>p q. (p - q) / p * 100) (pre_covid_revenue sim) (post_covid_revenue sim)"
    by (rule decline_column [OF sim tab col])
  have len: "length ds = n"
    using sh(3) sh(4) sh(5) by (simp add: ds)
  have drop: "3 / 10 \<le> drop_factors sim ! i \<and> drop_factors sim ! i < 1" if lt: "i < n" for i
  proof -
    obtain u where u: "0 \<le> u \<and> u < 1" "drop_factors sim ! i = 3 / 10 + 7 / 10 * u"
      using drops_range [of "\<lambda>u. 0 \<le> u \<and> u < 1", OF unit sim lt] by blast
    then show ?thesis by simp
  qed
  have post: "post_covid_revenue sim ! i < pre_covid_revenue sim ! i" if lt: "i < n" for i
  proof -
    have p: "0 < pre_covid_revenue sim ! i"
      using sh(3) sh(6) lt by (metis nth_mem less_le_trans zero_less_numeral)
    have "post_covid_revenue sim ! i = pre_covid_revenue sim ! i * drop_factors sim ! i"
      using sh(3) sh(4) sh(5) lt by simp
    also have "\<dots> < pre_covid_revenue sim ! i * 1"
      using p drop [OF lt] by (intro mult_strict_left_mono) simp_all
    finally show ?thesis by simp
  qed
  have pos: "0 < ds ! i" if lt: "i < n" for i
  proof -
    have "ds ! i = (1 - drop_factors sim ! i) * 100"
      unfolding ds by (rule decline_nth [OF sim lt])
    then show ?thesis using drop [OF lt] by simp
  qed
  have "\<forall>d\<in>set ds. 0 < d"
    using pos len by (metis in_set_conv_nth)
  moreover have "\<forall>f\<in>set (drop_factors sim). 3 / 10 \<le> f \<and> f < 1"
    using drop sh(4) by (metis in_set_conv_nth)
  ultimately show ?thesis using post by blast
qed

theorem decline_strictly_positive_witness:
  "(\<forall>s. 0 \<le> fst (random_sample counter_random s) \<and> fst (random_sample counter_random s) < 1) \<and>
   simulate counter_random 4 0 = Inr (sim4, 12) \<and>
   table_of sim4 = Inr table4 \<and>
   df_getitem table4 ''decline_percent'' = Inr (FloatCol [14, 7, 70, 63]) \<and>
   list_all2 (<) (post_covid_revenue sim4) (pre_covid_revenue sim4) \<and>
   list_all (\<lambda>f. 3 / 10 \<le> f \<and> f < 1) (drop_factors sim4) \<and>
   list_all (\<lambda>d. 0 < d) [14, 7, 70, 63 :: real]"
proof -
  note t = decline_strictly_positive [of counter_random, OF counter_unit simulate_counter_4
      table_of_sim4 decline_of_table4]
  have l: "length (post_covid_revenue sim4) = 4" "length (pre_covid_revenue sim4) = 4"
    by (simp_all add: sim4_def)
  have "list_all2 (<) (post_covid_revenue sim4) (pre_covid_revenue sim4)"
    using t l by (simp add: list_all2_conv_all_nth)
  moreover have "list_all (\<lambda>f. 3 / 10 \<le> f \<and> f < 1) (drop_factors sim4)"
    using t by (simp add: list_all_iff)
  moreover have "list_all (\<lambda>d. 0 < d) [14, 7, 70, 63 :: real]"
    using t by (simp add: list_all_iff)
  ultimately show ?thesis
    using counter_unit simulate_counter_4 table_of_sim4 decline_of_table4 by simp
qed

subsection \<open>The grouped mean\<close>

lemma map_of_group_add:
  "map_of (group_add k v acc) k' =
     (if k' = k
      then Some (case map_of acc k of None \<Rightarrow> (v, 1) | Some (s, c) \<Rightarrow> (s + v, Suc c))
      else map_of acc k')"
  by (induction acc) auto

lemma keys_group_add:
  "map fst (group_add k v acc) = (if k \<in> set (map fst acc) then map fst acc else map fst acc @ [k])"
  by (induction acc) force+

lemma set_keys_group_add:
  "set (map fst (group_add k v acc)) = insert k (set (map fst acc))"
  by (simp only: keys_group_add) auto

lemma distinct_group_add:
  "distinct (map fst acc) \<Longrightarrow> distinct (map fst (group_add k v acc))"
  by (simp add: keys_group_add)

lemma map_of_group_fold:
  "map_of (foldl (\<lambda>acc (k, v). group_add k v acc) acc kvs) k =
     (case map_of acc k of
        None \<Rightarrow>
          (if k \<in> fst ` set kvs
           then Some (sum_list (map snd (filter (\<lambda>(k', v). k' = k) kvs)),
                      length (map snd (filter (\<lambda>(k', v). k' = k) kvs)))
           else None)
      | Some (s, c) \<Rightarrow>
          Some (s + sum_list (map snd (filter (\<lambda>(k', v). k' = k) kvs)),
                c + length (map snd (filter (\<lambda>(k', v). k' = k) kvs))))"
proof (induction kvs arbitrary: acc)
  case Nil
  then show ?case by (simp split: option.splits)
next
  case (Cons kv kvs)
  obtain k0 v0 where kv: "kv = (k0, v0)" by (cases kv)
  show ?case
    by (auto simp add: kv Cons.IH map_of_group_add split: option.splits)
qed

lemma distinct_group_fold:
  "distinct (map fst acc) \<Longrightarrow>
   distinct (map fst (foldl (\<lambda>acc (k, v). group_add k v acc) acc kvs))"
  by (induction kvs arbitrary: acc) (auto simp add: distinct_group_add)

lemma keys_group_fold:
  "set (map fst (foldl (\<lambda>acc (k, v). group_add k v acc) acc kvs)) =
     set (map fst acc) \<union> fst ` set kvs"
proof (induction kvs arbitrary: acc)
  case Nil
  then show ?case by simp
next
  case (Cons kv kvs)
  obtain k0 v0 where kv: "kv = (k0, v0)" by (cases kv)
  have "set (map fst (foldl (\<lambda>acc (k, v). group_add k v acc) acc (kv # kvs))) =
        set (map fst (group_add k0 v0 acc)) \<union> fst ` set kvs"
    using Cons.IH [of "group_add k0 v0 acc"] by (simp add: kv)
  also have "\<dots> = set (map fst acc) \<union> fst ` set (kv # kvs)"
    by (simp only: set_keys_group_add) (auto simp add: kv)
  finally show ?case .
qed

lemma map_of_group_sums:
  "map_of (group_sums keys vals) k =
     (if k \<in> fst ` set (zip keys vals)
      then Some (sum_list (restricted keys vals k), length (restricted keys vals k))
      else None)"
  by (simp add: group_sums_def restricted_def map_of_group_fold)

lemma distinct_group_sums: "distinct (map fst (group_sums keys vals))"
  by (simp add: group_sums_def distinct_group_fold)

lemma keys_group_sums: "set (map fst (group_sums keys vals)) = fst ` set (zip keys vals)"
  using keys_group_fold [of "[]" "zip keys vals"] by (simp add: group_sums_def)

lemma keys_groupby_mean:
  "map fst (groupby_mean keys vals) = map fst (sort_key fst (group_sums keys vals))"
  by (simp add: groupby_mean_def case_prod_beta comp_def)

lemma map_of_sort_key:
  assumes "distinct (map fst xs)"
  shows "map_of (sort_key fst xs) = map_of xs"
proof -
  have "card (set (map fst (sort_key fst xs))) = card (set (map fst xs))"
    by simp
  also have "\<dots> = length (map fst xs)"
    using assms by (rule distinct_card)
  also have "\<dots> = length (map fst (sort_key fst xs))"
    by simp
  finally have "distinct (map fst (sort_key fst xs))"
    by (rule card_distinct)
  then show ?thesis
    using assms by (simp add: map_of_inject_set)
qed

lemma map_of_groupby_mean:
  "map_of (groupby_mean keys vals) k =
     (if k \<in> fst ` set (zip keys vals) then Some (restricted_mean keys vals k) else None)"
proof -
  have "groupby_mean keys vals =
        map (\<lambda>(k, p). (k, (\<lambda>(s, c). s / real c) p)) (sort_key fst (group_sums keys vals))"
    by (simp add: groupby_mean_def case_prod_beta)
  then have "map_of (groupby_mean keys vals) k =
        map_option (\<lambda>(s, c). s / real c) (map_of (sort_key fst (group_sums keys vals)) k)"
    by (simp only: map_of_map comp_def)
  also have "\<dots> = map_option (\<lambda>(s, c). s / real c) (map_of (group_sums keys vals) k)"
    by (simp add: map_of_sort_key distinct_group_sums)
  finally show ?thesis
    by (simp add: map_of_group_sums restricted_mean_def)
qed

lemma keys_of_zip: "length keys = length vals \<Longrightarrow> fst ` set (zip keys vals) = set keys"
  by (metis list.set_map map_fst_zip)

lemma bar_chart_eq:
  assumes sec: "df_getitem df ''sector'' = Inr (StrCol keys)"
    and dec: "df_getitem df ''decline_percent'' = Inr (FloatCol vals)"
    and len: "length keys = length vals"
  shows "bar_chart df = Inr (Barplot (groupby_mean keys vals))"
proof -
  have avg: "avg_decline df =
      Inr [(''sector'', StrCol (map fst (groupby_mean keys vals))),
           (''decline_percent'', FloatCol (map snd (groupby_mean keys vals)))]"
    using len by (simp add: avg_decline_def sec dec bind_err_Inr Let_def)
  show ?thesis
    by (simp add: bar_chart_def avg bind_err_Inr sns_barplot_def df_getitem_def zip_map_fst_snd)
qed

text \<open>
  C7. The data of the per-category aggregate chart are the grouped means: for a frame
  with a sector column and a decline column of the same length, the bar chart holds one
  bar per sector that occurs, in sorted order and without duplicates, and the height of
  each bar is the arithmetic mean of \<open>decline_percent\<close> over exactly the records of
  that sector, as recomputed from the restricted sublist (\<open>restricted_mean\<close>).
\<close>

theorem grouped_mean_correct:
  assumes sec: "df_getitem df ''sector'' = Inr (StrCol keys)"
    and dec: "df_getitem df ''decline_percent'' = Inr (FloatCol vals)"
    and len: "length keys = length vals"
  shows "bar_chart df = Inr (Barplot (groupby_mean keys vals)) \<and>
         (\<forall>k\<in>set keys. map_of (groupby_mean keys vals) k = Some (restricted_mean keys vals k)) \<and>
         set (map fst (groupby_mean keys vals)) = set keys \<and>
         distinct (map fst (groupby_mean keys vals)) \<and>
         sorted (map fst (groupby_mean keys vals))"
proof -
  have chart: "bar_chart df = Inr (Barplot (groupby_mean keys vals))"
    by (rule bar_chart_eq [OF sec dec len])
  have means: "\<forall>k\<in>set keys. map_of (groupby_mean keys vals) k = Some (restricted_mean keys vals k)"
    by (simp add: map_of_groupby_mean keys_of_zip [OF len])
  have ks: "set (map fst (groupby_mean keys vals)) = set keys"
    using keys_group_sums [of keys vals] by (simp add: keys_groupby_mean keys_of_zip [OF len])
  have "card (set (map fst (groupby_mean keys vals))) = card (set (map fst (group_sums keys vals)))"
    by (simp add: keys_groupby_mean)
  also have "\<dots> = length (map fst (group_sums keys vals))"
    using distinct_group_sums by (rule distinct_card)
  also have "\<dots> = length (map fst (groupby_mean keys vals))"
    by (simp add: keys_groupby_mean)
  finally have dist: "distinct (map fst (groupby_mean keys vals))"
    by (rule card_distinct)
  have srt: "sorted (map fst (groupby_mean keys vals))"
    by (simp only: keys_groupby_mean sorted_sort_key)
  from chart means ks dist srt show ?thesis by blast
qed

lemma frame3_sector:
  "df_getitem frame3 ''sector'' = Inr (StrCol [''Retail'', ''Hospitality'', ''Retail''])"
  by code_simp

lemma frame3_decline: "df_getitem frame3 ''decline_percent'' = Inr (FloatCol [10, 20, 40])"
  by code_simp

lemma frame3_means:
  "groupby_mean [''Retail'', ''Hospitality'', ''Retail''] [10, 20, 40] =
     [(''Hospitality'', 20), (''Retail'', 25)]"
  by code_simp

theorem grouped_mean_correct_witness:
  "df_getitem frame3 ''sector'' = Inr (StrCol [''Retail'', ''Hospitality'', ''Retail'']) \<and>
   df_getitem frame3 ''decline_percent'' = Inr (FloatCol [10, 20, 40]) \<and>
   length [''Retail'', ''Hospitality'', ''Retail''] = length [10, 20, 40 :: real] \<and>
   bar_chart frame3 = Inr (Barplot [(''Hospitality'', 20), (''Retail'', 25)]) \<and>
   map_of [(''Hospitality'', 20), (''Retail'', 25)] ''Retail'' =
     Some (restricted_mean [''Retail'', ''Hospitality'', ''Retail''] [10, 20, 40] ''Retail'') \<and>
   map_of [(''Hospitality'', 20), (''Retail'', 25)] ''Hospitality'' =
     Some (restricted_mean [''Retail'', ''Hospitality'', ''Retail''] [10, 20, 40] ''Hospitality'')"
proof -
  have len: "length [''Retail'', ''Hospitality'', ''Retail''] = length [10, 20, 40 :: real]"
    by simp
  note t = grouped_mean_correct [OF frame3_sector frame3_decline len]
  show ?thesis
    using t frame3_sector frame3_decline by (simp add: frame3_means)
qed

subsection \<open>The run of the script\<close>

lemma bind_err_eq_Inr: "bind_err m f = Inr y \<longleftrightarrow> (\<exists>x. m = Inr x \<and> f x = Inr y)"
  by (cases m) (simp_all add: bind_err_def)

lemma setup_output_dir_cases:
  "setup_output_dir w =
     Inr (if os_path_exists w output_dir then w
          else print (''Created output directory: '' @ output_dir) (w\<lparr>dirs := dirs w @ [output_dir]\<rparr>))"
  by (simp add: setup_output_dir_def os_makedirs_def bind_err_Inr)

lemma rng_setup_output_dir: "setup_output_dir w = Inr w' \<Longrightarrow> rng w' = rng w"
  by (auto simp add: setup_output_dir_cases print_def split: if_splits)

lemma prepare_eq:
  "prepare R n w0 = Inr (sim, w) \<longleftrightarrow>
     (\<exists>w2 g. setup_output_dir (w0\<lparr>rng := seed R 42\<rparr>) = Inr w2 \<and>
        simulate R n (seed R 42) = Inr (sim, g) \<and> w = w2\<lparr>rng := g\<rparr>)"
proof -
  have r: "rng w2 = seed R 42" if "setup_output_dir (w0\<lparr>rng := seed R 42\<rparr>) = Inr w2" for w2
    using rng_setup_output_dir [OF that] by simp
  show ?thesis
    by (auto simp add: prepare_def Let_def bind_err_eq_Inr r)
qed

lemma save_Inr:
  assumes "save label name a w = Inr w'"
  shows "w' = w\<lparr>files := AList.update (os_path_join output_dir name) a (files w),
                 stdout := stdout w @ [label @ os_path_join output_dir name]\<rparr>"
    and "os_path_dirname (os_path_join output_dir name) = [] \<or>
         os_path_dirname (os_path_join output_dir name) \<in> set (dirs w)"
    and "os_path_join output_dir name \<notin> set (dirs w)"
  using assms
  by (auto simp add: save_def Let_def write_file_def print_def bind_err_eq_Inr split: if_splits)

lemma table_columns:
  assumes "df = [(''business_id'', IntCol ids), (''sector'', StrCol secs),
                 (''pre_covid_revenue'', FloatCol pre), (''post_covid_revenue'', FloatCol post),
                 (''decline_percent'', FloatCol dec)]"
  shows "df_getitem df ''sector'' = Inr (StrCol secs)"
    and "df_getitem df ''pre_covid_revenue'' = Inr (FloatCol pre)"
    and "df_getitem df ''post_covid_revenue'' = Inr (FloatCol post)"
    and "df_getitem df ''decline_percent'' = Inr (FloatCol dec)"
  by (simp_all add: assms df_getitem_def)

lemma export_all_table:
  assumes df: "df = [(''business_id'', IntCol ids), (''sector'', StrCol secs),
                     (''pre_covid_revenue'', FloatCol pre), (''post_covid_revenue'', FloatCol post),
                     (''decline_percent'', FloatCol dec)]"
    and len: "length secs = length dec"
  shows "export_all df w =
     bind_err (save ''Data saved to: '' ''covid_impact_data.csv'' (to_csv df) w) (\<lambda>w1.
     bind_err (save ''Histogram saved to: '' ''hist_decline_percent.png''
                 (Histogram dec 30 True) w1) (\<lambda>w2.
     bind_err (save ''Boxplot saved to: '' ''boxplot_decline_by_sector.png''
                 (Boxplot (zip secs dec)) w2) (\<lambda>w3.
     bind_err (save ''Bar plot saved to: '' ''barplot_avg_decline_by_sector.png''
                 (Barplot (groupby_mean secs dec)) w3) (\<lambda>w4.
     bind_err (save ''Scatter plot saved to: '' ''scatter_pre_vs_post_revenue.png''
                 (Scatter (zip pre (zip post secs)) (series_max pre)) w4) (\<lambda>w5.
     Inr (print final_message w5))))))"
proof -
  note c = table_columns [OF df]
  have bar: "bar_chart df = Inr (Barplot (groupby_mean secs dec))"
    by (rule bar_chart_eq [OF c(1) c(4) len])
  show ?thesis
    by (simp add: export_all_def c bar bind_err_Inr sns_histplot_def sns_boxplot_def
        sns_scatterplot_def)
qed

lemma output_paths:
  "os_path_join output_dir ''covid_impact_data.csv'' = ''output_images/covid_impact_data.csv''"
  "os_path_join output_dir ''hist_decline_percent.png'' = ''output_images/hist_decline_percent.png''"
  "os_path_join output_dir ''boxplot_decline_by_sector.png'' =
     ''output_images/boxplot_decline_by_sector.png''"
  "os_path_join output_dir ''barplot_avg_decline_by_sector.png'' =
     ''output_images/barplot_avg_decline_by_sector.png''"
  "os_path_join output_dir ''scatter_pre_vs_post_revenue.png'' =
     ''output_images/scatter_pre_vs_post_revenue.png''"
  by code_simp+

lemma output_parent:
  "os_path_dirname ''output_images/covid_impact_data.csv'' = ''output_images''"
  by code_simp

lemma export_all_Inr:
  assumes df: "df = [(''business_id'', IntCol ids), (''sector'', StrCol secs),
                     (''pre_covid_revenue'', FloatCol pre), (''post_covid_revenue'', FloatCol post),
                     (''decline_percent'', FloatCol dec)]"
    and len: "length secs = length dec"
    and run: "export_all df w = Inr w'"
  shows "w' = w\<lparr>files :=
             AList.update ''output_images/scatter_pre_vs_post_revenue.png''
               (Scatter (zip pre (zip post secs)) (series_max pre))
            (AList.update ''output_images/barplot_avg_decline_by_sector.png''
               (Barplot (groupby_mean secs dec))
            (AList.update ''output_images/boxplot_decline_by_sector.png'' (Boxplot (zip secs dec))
            (AList.update ''output_images/hist_decline_percent.png'' (Histogram dec 30 True)
            (AList.update ''output_images/covid_impact_data.csv'' (to_csv df) (files w))))),
           stdout := stdout w @
             [''Data saved to: output_images/covid_impact_data.csv'',
              ''Histogram saved to: output_images/hist_decline_percent.png'',
              ''Boxplot saved to: output_images/boxplot_decline_by_sector.png'',
              ''Bar plot saved to: output_images/barplot_avg_decline_by_sector.png'',
              ''Scatter plot saved to: output_images/scatter_pre_vs_post_revenue.png'',
              final_message]\<rparr>"
    and "output_dir \<in> set (dirs w)"
proof -
  obtain w1 w2 w3 w4 w5 where
    s1: "save ''Data saved to: '' ''covid_impact_data.csv'' (to_csv df) w = Inr w1" and
    s2: "save ''Histogram saved to: '' ''hist_decline_percent.png'' (Histogram dec 30 True) w1 = Inr w2" and
    s3: "save ''Boxplot saved to: '' ''boxplot_decline_by_sector.png'' (Boxplot (zip secs dec)) w2 = Inr w3" and
    s4: "save ''Bar plot saved to: '' ''barplot_avg_decline_by_sector.png''
           (Barplot (groupby_mean secs dec)) w3 = Inr w4" and
    s5: "save ''Scatter plot saved to: '' ''scatter_pre_vs_post_revenue.png''
           (Scatter (zip pre (zip post secs)) (series_max pre)) w4 = Inr w5" and
    fin: "w' = print final_message w5"
    using run unfolding export_all_table [OF df len] bind_err_eq_Inr by auto
  note e1 = save_Inr(1) [OF s1, unfolded output_paths]
  note e2 = save_Inr(1) [OF s2, unfolded output_paths]
  note e3 = save_Inr(1) [OF s3, unfolded output_paths]
  note e4 = save_Inr(1) [OF s4, unfolded output_paths]
  note e5 = save_Inr(1) [OF s5, unfolded output_paths]
  show "w' = w\<lparr>files :=
             AList.update ''output_images/scatter_pre_vs_post_revenue.png''
               (Scatter (zip pre (zip post secs)) (series_max pre))
            (AList.update ''output_images/barplot_avg_decline_by_sector.png''
               (Barplot (groupby_mean secs dec))
            (AList.update ''output_images/boxplot_decline_by_sector.png'' (Boxplot (zip secs dec))
            (AList.update ''output_images/hist_decline_percent.png'' (Histogram dec 30 True)
            (AList.update ''output_images/covid_impact_data.csv'' (to_csv df) (files w))))),
           stdout := stdout w @
             [''Data saved to: output_images/covid_impact_data.csv'',
              ''Histogram saved to: output_images/hist_decline_percent.png'',
              ''Boxplot saved to: output_images/boxplot_decline_by_sector.png'',
              ''Bar plot saved to: output_images/barplot_avg_decline_by_sector.png'',
              ''Scatter plot saved to: output_images/scatter_pre_vs_post_revenue.png'',
              final_message]\<rparr>"
    unfolding fin e5 e4 e3 e2 e1 by (simp add: print_def)
  have "os_path_dirname ''output_images/covid_impact_data.csv'' = [] \<or>
        os_path_dirname ''output_images/covid_impact_data.csv'' \<in> set (dirs w)"
    using save_Inr(2) [OF s1] by (simp only: output_paths)
  then show "output_dir \<in> set (dirs w)"
    by (simp add: output_parent output_dir_def)
qed

lemma script_world3: "script counter_random 3 empty_world = Inr world3"
  by code_simp

lemma script_used_world3: "script counter_random 3 used_world = Inr used_world3"
  by code_simp

lemma prepare_empty_world:
  "prepare counter_random 3 empty_world =
     Inr (sim3, \<lparr>rng = 51, dirs = [''output_images''], files = [],
                 stdout = [''Created output directory: output_images'']\<rparr>)"
  by code_simp

lemma prepare_used_world:
  "prepare counter_random 3 used_world = Inr (sim3, used_world\<lparr>rng := 51\<rparr>)"
  by code_simp

lemma script_Inr:
  assumes "script R n w0 = Inr w'"
  obtains sim g w2 where
    "setup_output_dir (w0\<lparr>rng := seed R 42\<rparr>) = Inr w2"
    "simulate R n (seed R 42) = Inr (sim, g)"
    "export_all
       [(''business_id'', IntCol (business_ids sim)),
        (''sector'', StrCol (business_sectors sim)),
        (''pre_covid_revenue'', FloatCol (pre_covid_revenue sim)),
        (''post_covid_revenue'', FloatCol (post_covid_revenue sim)),
        (''decline_percent'', FloatCol (map2 (\<lambda>p q. (p - q) / p * 100)
           (pre_covid_revenue sim) (post_covid_revenue sim)))]
       (w2\<lparr>rng := g\<rparr>) = Inr w'"
proof -
  obtain sim w df where p: "prepare R n w0 = Inr (sim, w)"
    and t: "table_of sim = Inr df" and e: "export_all df w = Inr w'"
    using assms by (auto simp add: script_def bind_err_eq_Inr)
  obtain w2 g where s: "setup_output_dir (w0\<lparr>rng := seed R 42\<rparr>) = Inr w2"
    and m: "simulate R n (seed R 42) = Inr (sim, g)" and w: "w = w2\<lparr>rng := g\<rparr>"
    using p unfolding prepare_eq by blast
  show thesis
    using that [OF s m] e t w unfolding table_of_simulate [OF m] by simp
qed

lemma transpose5:
  assumes "length a = n" "length b = n" "length c = n" "length d = n" "length e = n"
  shows "transpose [a, b, c, d, e] = map (\<lambda>i. [a ! i, b ! i, c ! i, d ! i, e ! i]) [0..<n]"
proof -
  have rect: "length ([a, b, c, d, e] ! i) = n" if "i < length [a, b, c, d, e]" for i
    using that assms by (auto simp add: nth_Cons' )
  have five: "[0..<length [a, b, c, d, e]] = [0, 1, 2, 3, 4]"
    by (simp add: upt_rec)
  have "transpose [a, b, c, d, e] =
        map (\<lambda>i. map (\<lambda>j. [a, b, c, d, e] ! j ! i) [0..<length [a, b, c, d, e]]) [0..<n]"
    by (rule transpose_rectangle) (use rect in simp_all)
  then show ?thesis
    by (simp only: five) simp
qed

text \<open>
  C5. After a successful run the exported table at
  \<^verbatim>\<open>output_images/covid_impact_data.csv\<close> has the header row \<open>business_id\<close>,
  \<open>sector\<close>, \<open>pre_covid_revenue\<close>, \<open>post_covid_revenue\<close>, \<open>decline_percent\<close>
  (no drop factor column) and exactly \<open>n\<close> data rows of five cells; the first cells of
  the rows are the integers 1 to \<open>n\<close> in this order, without duplicates.
\<close>

theorem exported_table:
  assumes "script R n w0 = Inr w'"
  shows "\<exists>rows.
           map_of (files w') ''output_images/covid_impact_data.csv'' =
             Some (CsvFile [''business_id'', ''sector'', ''pre_covid_revenue'',
                            ''post_covid_revenue'', ''decline_percent''] rows) \<and>
           length rows = n \<and>
           (\<forall>r\<in>set rows. length r = 5) \<and>
           map hd rows = map IntCell [1..int n] \<and>
           distinct (map hd rows)"
proof -
  obtain sim g w2 where
    m: "simulate R n (seed R 42) = Inr (sim, g)" and
    e: "export_all
       [(''business_id'', IntCol (business_ids sim)),
        (''sector'', StrCol (business_sectors sim)),
        (''pre_covid_revenue'', FloatCol (pre_covid_revenue sim)),
        (''post_covid_revenue'', FloatCol (post_covid_revenue sim)),
        (''decline_percent'', FloatCol (map2 (\<lambda>p q. (p - q) / p * 100)
           (pre_covid_revenue sim) (post_covid_revenue sim)))]
       (w2\<lparr>rng := g\<rparr>) = Inr w'"
    using assms by (rule script_Inr)
  note sh = simulate_shape [OF m]
  define dec where "dec = map2 (\<lambda>p q. (p - q) / p * 100) (pre_covid_revenue sim) (post_covid_revenue sim)"
  define df where "df =
       [(''business_id'', IntCol (business_ids sim)),
        (''sector'', StrCol (business_sectors sim)),
        (''pre_covid_revenue'', FloatCol (pre_covid_revenue sim)),
        (''post_covid_revenue'', FloatCol (post_covid_revenue sim)),
        (''decline_percent'', FloatCol dec)]"
  define rows where "rows = map (\<lambda>i.
       [map IntCell (business_ids sim) ! i, map StrCell (business_sectors sim) ! i,
        map FloatCell (pre_covid_revenue sim) ! i, map FloatCell (post_covid_revenue sim) ! i,
        map FloatCell dec ! i]) [0..<n]"
  have lpost: "length (post_covid_revenue sim) = n"
    using sh(3) sh(4) sh(5) by simp
  have ldec: "length dec = n"
    using sh(3) lpost by (simp add: dec_def)
  have csv: "to_csv df =
      CsvFile [''business_id'', ''sector'', ''pre_covid_revenue'', ''post_covid_revenue'',
               ''decline_percent''] rows"
    unfolding rows_def using sh(1) sh(2) sh(3) lpost ldec
    by (simp add: to_csv_def df_def transpose5 [where n = n])
  have len: "length (business_sectors sim) = length dec"
    using sh(2) ldec by simp
  have e': "export_all df (w2\<lparr>rng := g\<rparr>) = Inr w'"
    using e by (simp add: df_def dec_def)
  have w': "map_of (files w') ''output_images/covid_impact_data.csv'' = Some (to_csv df)"
    by (subst export_all_Inr(1) [OF df_def len e']) (simp add: update_conv')
  have hd: "map hd rows = map IntCell [1..int n]"
  proof -
    have "map hd rows = map (\<lambda>i. map IntCell (business_ids sim) ! i) [0..<n]"
      by (simp add: rows_def)
    also have "\<dots> = map IntCell (business_ids sim)"
      using sh(1) by (metis length_map map_nth)
    finally show ?thesis by (simp add: sh(7))
  qed
  have dist: "distinct (map hd rows)"
    unfolding hd by (simp add: distinct_map inj_on_def)
  have shape: "length rows = n" "\<forall>r\<in>set rows. length r = 5"
    by (simp_all add: rows_def)
  have csv_file: "map_of (files w') ''output_images/covid_impact_data.csv'' =
      Some (CsvFile [''business_id'', ''sector'', ''pre_covid_revenue'', ''post_covid_revenue'',
                     ''decline_percent''] rows)"
    using w' csv by simp
  show ?thesis
    by (intro exI [of _ rows] conjI) (fact csv_file shape hd dist)+
qed

theorem exported_table_witness:
  "script counter_random 3 empty_world = Inr world3 \<and>
   (\<exists>rows.
      map_of (files world3) ''output_images/covid_impact_data.csv'' =
        Some (CsvFile [''business_id'', ''sector'', ''pre_covid_revenue'',
                       ''post_covid_revenue'', ''decline_percent''] rows) \<and>
      length rows = 3 \<and>
      list_all (\<lambda>r. length r = 5) rows \<and>
      map hd rows = map IntCell [1..int 3] \<and>
      distinct (map hd rows))"
  using script_world3 exported_table [OF script_world3]
  by (simp add: list_all_iff)

text \<open>
  C6. The simulator is deterministic in the seed: two runs with the same generator and
  the same \<open>n\<close>, from any two worlds (whatever their generator states and file
  systems), simulate the same records and leave the same generator state. The sampling
  order is fixed: the sectors are one batch of \<open>n\<close> draws from the seeded state, the
  pre-shock revenues one batch of \<open>n\<close> normal draws from the state after the sectors,
  the drop factors one batch of \<open>n\<close> unit samples from the state after those.
\<close>

theorem deterministic_in_seed:
  assumes "prepare R n w = Inr (sim, w1)" and "prepare R n w' = Inr (sim', w1')"
  shows "sim = sim' \<and> rng w1 = rng w1' \<and>
         business_sectors sim = fst (draws (choice1 R sectors) n (seed R 42)) \<and>
         pre_covid_revenue sim =
           map (\<lambda>z. max 100 (500 + 150 * z))
             (fst (draws (standard_normal R) n
                (snd (draws (choice1 R sectors) n (seed R 42))))) \<and>
         drop_factors sim =
           map (\<lambda>u. 3 / 10 + 7 / 10 * u)
             (fst (draws (random_sample R) n
                (snd (draws (standard_normal R) n
                   (snd (draws (choice1 R sectors) n (seed R 42)))))))"
proof -
  obtain w2 g where a: "simulate R n (seed R 42) = Inr (sim, g)" "w1 = w2\<lparr>rng := g\<rparr>"
    using assms(1) unfolding prepare_eq by blast
  obtain w2' g' where b: "simulate R n (seed R 42) = Inr (sim', g')" "w1' = w2'\<lparr>rng := g'\<rparr>"
    using assms(2) unfolding prepare_eq by blast
  have same: "sim = sim'" "g = g'"
    using a(1) b(1) by simp_all
  have "rng w1 = rng w1'"
    using a(2) b(2) same by simp
  then show ?thesis
    using same a(1) by (auto simp add: simulate_eq Let_def)
qed

theorem deterministic_in_seed_witness:
  "prepare counter_random 3 empty_world =
     Inr (sim3, \<lparr>rng = 51, dirs = [''output_images''], files = [],
                 stdout = [''Created output directory: output_images'']\<rparr>) \<and>
   prepare counter_random 3 used_world = Inr (sim3, used_world\<lparr>rng := 51\<rparr>) \<and>
   business_sectors sim3 = fst (draws (choice1 counter_random sectors) 3 (seed counter_random 42)) \<and>
   pre_covid_revenue sim3 =
     map (\<lambda>z. max 100 (500 + 150 * z))
       (fst (draws (standard_normal counter_random) 3
          (snd (draws (choice1 counter_random sectors) 3 (seed counter_random 42))))) \<and>
   drop_factors sim3 =
     map (\<lambda>u. 3 / 10 + 7 / 10 * u)
       (fst (draws (random_sample counter_random) 3
          (snd (draws (standard_normal counter_random) 3
             (snd (draws (choice1 counter_random sectors) 3 (seed counter_random 42)))))))"
  using prepare_empty_world prepare_used_world
    deterministic_in_seed [OF prepare_empty_world prepare_used_world]
  by simp

subsection \<open>The output directory\<close>

lemma output_parents:
  "os_path_dirname ''output_images/hist_decline_percent.png'' = ''output_images''"
  "os_path_dirname ''output_images/boxplot_decline_by_sector.png'' = ''output_images''"
  "os_path_dirname ''output_images/barplot_avg_decline_by_sector.png'' = ''output_images''"
  "os_path_dirname ''output_images/scatter_pre_vs_post_revenue.png'' = ''output_images''"
  by code_simp+

lemma artifact_paths_eq:
  "artifact_paths =
     [''output_images/covid_impact_data.csv'', ''output_images/hist_decline_percent.png'',
      ''output_images/boxplot_decline_by_sector.png'',
      ''output_images/barplot_avg_decline_by_sector.png'',
      ''output_images/scatter_pre_vs_post_revenue.png'']"
  by (simp add: artifact_paths_def output_paths)

lemma files_setup_output_dir: "setup_output_dir w = Inr w' \<Longrightarrow> files w' = files w"
  by (auto simp add: setup_output_dir_cases print_def split: if_splits)

lemma script_effect:
  assumes "script R n w0 = Inr w'"
  shows "\<exists>w2 sim g.
    setup_output_dir (w0\<lparr>rng := seed R 42\<rparr>) = Inr w2 \<and>
    simulate R n (seed R 42) = Inr (sim, g) \<and>
    output_dir \<in> set (dirs w2) \<and>
    dirs w' = dirs w2 \<and>
    stdout w' = stdout w2 @ progress_lines \<and>
    files w' =
      AList.update ''output_images/scatter_pre_vs_post_revenue.png''
        (Scatter (zip (pre_covid_revenue sim) (zip (post_covid_revenue sim) (business_sectors sim)))
           (series_max (pre_covid_revenue sim)))
     (AList.update ''output_images/barplot_avg_decline_by_sector.png''
        (Barplot (groupby_mean (business_sectors sim)
           (map2 (\<lambda>p q. (p - q) / p * 100) (pre_covid_revenue sim) (post_covid_revenue sim))))
     (AList.update ''output_images/boxplot_decline_by_sector.png''
        (Boxplot (zip (business_sectors sim)
           (map2 (\<lambda>p q. (p - q) / p * 100) (pre_covid_revenue sim) (post_covid_revenue sim))))
     (AList.update ''output_images/hist_decline_percent.png''
        (Histogram
           (map2 (\<lambda>p q. (p - q) / p * 100) (pre_covid_revenue sim) (post_covid_revenue sim))
           30 True)
     (AList.update ''output_images/covid_impact_data.csv''
        (to_csv
           [(''business_id'', IntCol (business_ids sim)),
            (''sector'', StrCol (business_sectors sim)),
            (''pre_covid_revenue'', FloatCol (pre_covid_revenue sim)),
            (''post_covid_revenue'', FloatCol (post_covid_revenue sim)),
            (''decline_percent'', FloatCol (map2 (\<lambda>p q. (p - q) / p * 100)
               (pre_covid_revenue sim) (post_covid_revenue sim)))])
        (files w0)))))"
proof -
  obtain sim g w2 where
    s: "setup_output_dir (w0\<lparr>rng := seed R 42\<rparr>) = Inr w2" and
    m: "simulate R n (seed R 42) = Inr (sim, g)" and
    e: "export_all
       [(''business_id'', IntCol (business_ids sim)),
        (''sector'', StrCol (business_sectors sim)),
        (''pre_covid_revenue'', FloatCol (pre_covid_revenue sim)),
        (''post_covid_revenue'', FloatCol (post_covid_revenue sim)),
        (''decline_percent'', FloatCol (map2 (\<lambda>p q. (p - q) / p * 100)
           (pre_covid_revenue sim) (post_covid_revenue sim)))]
       (w2\<lparr>rng := g\<rparr>) = Inr w'"
    using assms by (rule script_Inr)
  note sh = simulate_shape [OF m]
  have len: "length (business_sectors sim) =
      length (map2 (\<lambda>p q. (p - q) / p * 100) (pre_covid_revenue sim) (post_covid_revenue sim))"
    using sh(2) sh(3) sh(4) sh(5) by simp
  note w' = export_all_Inr(1) [OF refl len e]
  have d: "output_dir \<in> set (dirs w2)"
    using export_all_Inr(2) [OF refl len e] by simp
  have f2: "files w2 = files w0"
    using files_setup_output_dir [OF s] by simp
  have ds: "dirs w' = dirs w2"
    by (subst w') simp
  have out: "stdout w' = stdout w2 @ progress_lines"
    by (subst w') (simp add: progress_lines_def)
  have fs: "files w' =
      AList.update ''output_images/scatter_pre_vs_post_revenue.png''
        (Scatter (zip (pre_covid_revenue sim) (zip (post_covid_revenue sim) (business_sectors sim)))
           (series_max (pre_covid_revenue sim)))
     (AList.update ''output_images/barplot_avg_decline_by_sector.png''
        (Barplot (groupby_mean (business_sectors sim)
           (map2 (\<lambda>p q. (p - q) / p * 100) (pre_covid_revenue sim) (post_covid_revenue sim))))
     (AList.update ''output_images/boxplot_decline_by_sector.png''
        (Boxplot (zip (business_sectors sim)
           (map2 (\<lambda>p q. (p - q) / p * 100) (pre_covid_revenue sim) (post_covid_revenue sim))))
     (AList.update ''output_images/hist_decline_percent.png''
        (Histogram
           (map2 (\<lambda>p q. (p - q) / p * 100) (pre_covid_revenue sim) (post_covid_revenue sim))
           30 True)
     (AList.update ''output_images/covid_impact_data.csv''
        (to_csv
           [(''business_id'', IntCol (business_ids sim)),
            (''sector'', StrCol (business_sectors sim)),
            (''pre_covid_revenue'', FloatCol (pre_covid_revenue sim)),
            (''post_covid_revenue'', FloatCol (post_covid_revenue sim)),
            (''decline_percent'', FloatCol (map2 (\<lambda>p q. (p - q) / p * 100)
               (pre_covid_revenue sim) (post_covid_revenue sim)))])
        (files w0)))))"
    by (subst w') (simp add: f2)
  show ?thesis
    by (intro exI [of _ w2] exI [of _ sim] exI [of _ g] conjI) (fact s m d ds out fs)+
qed

text \<open>
  C10. When the output directory exists at the start of a successful run, it is left
  as it is: the directory step changes nothing (no creation is attempted), the set of
  directories after the run is the one before it, and the run prints exactly the
  progress lines of the artifacts and no line about a created directory. Every path
  that is not one of the five artifact paths keeps its content, inside the output
  directory as well as outside it; the five artifact paths all lie in the output
  directory and hold, after the run, the CSV table and the four charts of the simulated
  records. Only when the directory is absent is it created, and only then is the line
  \<open>Created output directory\<close> printed, before the other progress lines.
\<close>

theorem existing_directory_untouched:
  assumes "script R n w0 = Inr w'"
  shows "(output_dir \<in> set (dirs w0) \<longrightarrow>
            setup_output_dir (w0\<lparr>rng := seed R 42\<rparr>) = Inr (w0\<lparr>rng := seed R 42\<rparr>) \<and>
            dirs w' = dirs w0 \<and>
            stdout w' = stdout w0 @ progress_lines \<and>
            (\<forall>p. os_path_dirname p \<noteq> output_dir \<longrightarrow> map_of (files w') p = map_of (files w0) p)) \<and>
         (output_dir \<notin> set (dirs w0) \<longrightarrow>
            dirs w' = dirs w0 @ [output_dir] \<and>
            stdout w' = stdout w0 @ (''Created output directory: '' @ output_dir) # progress_lines) \<and>
         (\<forall>p. p \<notin> set artifact_paths \<longrightarrow> map_of (files w') p = map_of (files w0) p) \<and>
         (\<forall>p\<in>set artifact_paths. os_path_dirname p = output_dir) \<and>
         (\<exists>sim g df dec.
            simulate R n (seed R 42) = Inr (sim, g) \<and>
            table_of sim = Inr df \<and>
            df_getitem df ''decline_percent'' = Inr (FloatCol dec) \<and>
            map (map_of (files w')) artifact_paths =
              [Some (to_csv df),
               Some (Histogram dec 30 True),
               Some (Boxplot (zip (business_sectors sim) dec)),
               Some (Barplot (groupby_mean (business_sectors sim) dec)),
               Some (Scatter (zip (pre_covid_revenue sim)
                        (zip (post_covid_revenue sim) (business_sectors sim)))
                      (series_max (pre_covid_revenue sim)))])"
proof -
  obtain w2 sim g where
    s: "setup_output_dir (w0\<lparr>rng := seed R 42\<rparr>) = Inr w2" and
    m: "simulate R n (seed R 42) = Inr (sim, g)" and
    d: "output_dir \<in> set (dirs w2)" and
    ds: "dirs w' = dirs w2" and
    out: "stdout w' = stdout w2 @ progress_lines" and
    fs: "files w' =
      AList.update ''output_images/scatter_pre_vs_post_revenue.png''
        (Scatter (zip (pre_covid_revenue sim) (zip (post_covid_revenue sim) (business_sectors sim)))
           (series_max (pre_covid_revenue sim)))
     (AList.update ''output_images/barplot_avg_decline_by_sector.png''
        (Barplot (groupby_mean (business_sectors sim)
           (map2 (\<lambda>p q. (p - q) / p * 100) (pre_covid_revenue sim) (post_covid_revenue sim))))
     (AList.update ''output_images/boxplot_decline_by_sector.png''
        (Boxplot (zip (business_sectors sim)
           (map2 (\<lambda>p q. (p - q) / p * 100) (pre_covid_revenue sim) (post_covid_revenue sim))))
     (AList.update ''output_images/hist_decline_percent.png''
        (Histogram
           (map2 (\<lambda>p q. (p - q) / p * 100) (pre_covid_revenue sim) (post_covid_revenue sim))
           30 True)
     (AList.update ''output_images/covid_impact_data.csv''
        (to_csv
           [(''business_id'', IntCol (business_ids sim)),
            (''sector'', StrCol (business_sectors sim)),
            (''pre_covid_revenue'', FloatCol (pre_covid_revenue sim)),
            (''post_covid_revenue'', FloatCol (post_covid_revenue sim)),
            (''decline_percent'', FloatCol (map2 (\<lambda>p q. (p - q) / p * 100)
               (pre_covid_revenue sim) (post_covid_revenue sim)))])
        (files w0)))))"
    using script_effect [OF assms] by blast
  define dec where
    "dec = map2 (\<lambda>p q. (p - q) / p * 100) (pre_covid_revenue sim) (post_covid_revenue sim)"
  define df where "df =
       [(''business_id'', IntCol (business_ids sim)),
        (''sector'', StrCol (business_sectors sim)),
        (''pre_covid_revenue'', FloatCol (pre_covid_revenue sim)),
        (''post_covid_revenue'', FloatCol (post_covid_revenue sim)),
        (''decline_percent'', FloatCol dec)]"
  have tab: "table_of sim = Inr df"
    unfolding df_def dec_def by (rule table_of_simulate [OF m])
  have col: "df_getitem df ''decline_percent'' = Inr (FloatCol dec)"
    by (rule table_columns(4) [OF df_def])
  have arts: "map (map_of (files w')) artifact_paths =
      [Some (to_csv df),
       Some (Histogram dec 30 True),
       Some (Boxplot (zip (business_sectors sim) dec)),
       Some (Barplot (groupby_mean (business_sectors sim) dec)),
       Some (Scatter (zip (pre_covid_revenue sim)
                (zip (post_covid_revenue sim) (business_sectors sim)))
              (series_max (pre_covid_revenue sim)))]"
    unfolding df_def dec_def by (simp add: artifact_paths_eq fs update_conv')
  have frame: "\<forall>p. p \<notin> set artifact_paths \<longrightarrow> map_of (files w') p = map_of (files w0) p"
    by (simp add: artifact_paths_eq fs update_conv')
  have parents: "\<forall>p\<in>set artifact_paths. os_path_dirname p = output_dir"
    by (simp add: artifact_paths_eq output_parent output_parents output_dir_def)
  have outside: "\<forall>p. os_path_dirname p \<noteq> output_dir \<longrightarrow> map_of (files w') p = map_of (files w0) p"
    using frame parents by blast
  have w2: "w2 = (if os_path_exists (w0\<lparr>rng := seed R 42\<rparr>) output_dir then w0\<lparr>rng := seed R 42\<rparr>
      else print (''Created output directory: '' @ output_dir)
             (w0\<lparr>rng := seed R 42, dirs := dirs w0 @ [output_dir]\<rparr>))"
    using s by (auto simp add: setup_output_dir_cases)
  have present: "output_dir \<in> set (dirs w0) \<longrightarrow>
            setup_output_dir (w0\<lparr>rng := seed R 42\<rparr>) = Inr (w0\<lparr>rng := seed R 42\<rparr>) \<and>
            dirs w' = dirs w0 \<and>
            stdout w' = stdout w0 @ progress_lines \<and>
            (\<forall>p. os_path_dirname p \<noteq> output_dir \<longrightarrow> map_of (files w') p = map_of (files w0) p)"
  proof (intro conjI impI)
    assume a: "output_dir \<in> set (dirs w0)"
    then have e: "w2 = w0\<lparr>rng := seed R 42\<rparr>"
      using w2 by (simp add: os_path_exists_def)
    show "setup_output_dir (w0\<lparr>rng := seed R 42\<rparr>) = Inr (w0\<lparr>rng := seed R 42\<rparr>)"
      using s e by simp
    show "dirs w' = dirs w0" using ds e by simp
    show "stdout w' = stdout w0 @ progress_lines" using out e by simp
    show "\<forall>p. os_path_dirname p \<noteq> output_dir \<longrightarrow> map_of (files w') p = map_of (files w0) p"
      by (rule outside)
  qed
  have absent: "output_dir \<notin> set (dirs w0) \<longrightarrow>
            dirs w' = dirs w0 @ [output_dir] \<and>
            stdout w' = stdout w0 @ (''Created output directory: '' @ output_dir) # progress_lines"
  proof (intro conjI impI)
    assume a: "output_dir \<notin> set (dirs w0)"
    have "\<not> os_path_exists (w0\<lparr>rng := seed R 42\<rparr>) output_dir"
    proof
      assume "os_path_exists (w0\<lparr>rng := seed R 42\<rparr>) output_dir"
      then have "w2 = w0\<lparr>rng := seed R 42\<rparr>" using w2 by simp
      then show False using d a by simp
    qed
    then have e: "w2 = print (''Created output directory: '' @ output_dir)
             (w0\<lparr>rng := seed R 42, dirs := dirs w0 @ [output_dir]\<rparr>)"
      using w2 by simp
    show "dirs w' = dirs w0 @ [output_dir]"
      using ds e by (simp add: print_def)
    show "stdout w' = stdout w0 @ (''Created output directory: '' @ output_dir) # progress_lines"
      using out e by (simp add: print_def)
  qed
  have content: "\<exists>sim g df dec.
            simulate R n (seed R 42) = Inr (sim, g) \<and>
            table_of sim = Inr df \<and>
            df_getitem df ''decline_percent'' = Inr (FloatCol dec) \<and>
            map (map_of (files w')) artifact_paths =
              [Some (to_csv df),
               Some (Histogram dec 30 True),
               Some (Boxplot (zip (business_sectors sim) dec)),
               Some (Barplot (groupby_mean (business_sectors sim) dec)),
               Some (Scatter (zip (pre_covid_revenue sim)
                        (zip (post_covid_revenue sim) (business_sectors sim)))
                      (series_max (pre_covid_revenue sim)))]"
    by (intro exI [of _ sim] exI [of _ g] exI [of _ df] exI [of _ dec] conjI) (fact m tab col arts)+
  show ?thesis
    by (intro conjI) (fact present absent frame parents content)+
qed

lemma keep_me_no_artifact: "''output_images/keep_me.txt'' \<notin> set artifact_paths"
  by code_simp

lemma used_world3_artifacts:
  "map (map_of (files used_world3)) artifact_paths = map (\<lambda>(p, a). Some a) files3"
  by code_simp

theorem existing_directory_untouched_witness:
  "script counter_random 3 used_world = Inr used_world3 \<and>
   output_dir \<in> set (dirs used_world) \<and>
   setup_output_dir (used_world\<lparr>rng := seed counter_random 42\<rparr>) =
     Inr (used_world\<lparr>rng := seed counter_random 42\<rparr>) \<and>
   dirs used_world3 = dirs used_world \<and>
   stdout used_world3 = stdout used_world @ progress_lines \<and>
   map_of (files used_world3) ''data/notes.txt'' = map_of (files used_world) ''data/notes.txt'' \<and>
   ''output_images/keep_me.txt'' \<notin> set artifact_paths \<and>
   map_of (files used_world3) ''output_images/keep_me.txt'' =
     map_of (files used_world) ''output_images/keep_me.txt'' \<and>
   list_all (\<lambda>p. os_path_dirname p = output_dir) artifact_paths \<and>
   map (map_of (files used_world3)) artifact_paths = map (\<lambda>(p, a). Some a) files3 \<and>
   (\<exists>sim g df dec.
      simulate counter_random 3 (seed counter_random 42) = Inr (sim, g) \<and>
      table_of sim = Inr df \<and>
      df_getitem df ''decline_percent'' = Inr (FloatCol dec) \<and>
      map (map_of (files used_world3)) artifact_paths =
        [Some (to_csv df),
         Some (Histogram dec 30 True),
         Some (Boxplot (zip (business_sectors sim) dec)),
         Some (Barplot (groupby_mean (business_sectors sim) dec)),
         Some (Scatter (zip (pre_covid_revenue sim)
                  (zip (post_covid_revenue sim) (business_sectors sim)))
                (series_max (pre_covid_revenue sim)))]) \<and>
   script counter_random 3 empty_world = Inr world3 \<and>
   output_dir \<notin> set (dirs empty_world) \<and>
   dirs world3 = dirs empty_world @ [output_dir] \<and>
   stdout world3 =
     stdout empty_world @ (''Created output directory: '' @ output_dir) # progress_lines"
proof -
  have a: "output_dir \<in> set (dirs used_world)"
    by code_simp
  have b: "output_dir \<notin> set (dirs empty_world)"
    by (simp add: empty_world_def)
  have c: "os_path_dirname ''data/notes.txt'' \<noteq> output_dir"
    by code_simp
  note t1 = existing_directory_untouched [OF script_used_world3]
  note t2 = existing_directory_untouched [OF script_world3]
  have present:
    "setup_output_dir (used_world\<lparr>rng := seed counter_random 42\<rparr>) =
       Inr (used_world\<lparr>rng := seed counter_random 42\<rparr>)"
    "dirs used_world3 = dirs used_world"
    "stdout used_world3 = stdout used_world @ progress_lines"
    "map_of (files used_world3) ''data/notes.txt'' = map_of (files used_world) ''data/notes.txt''"
    using t1 [THEN conjunct1] a c by simp_all
  have kept: "map_of (files used_world3) ''output_images/keep_me.txt'' =
      map_of (files used_world) ''output_images/keep_me.txt''"
    using t1 [THEN conjunct2, THEN conjunct2, THEN conjunct1] keep_me_no_artifact by simp
  have parents: "list_all (\<lambda>p. os_path_dirname p = output_dir) artifact_paths"
    using t1 [THEN conjunct2, THEN conjunct2, THEN conjunct2, THEN conjunct1]
    by (simp add: list_all_iff)
  note content = t1 [THEN conjunct2, THEN conjunct2, THEN conjunct2, THEN conjunct2]
  have absent:
    "dirs world3 = dirs empty_world @ [output_dir]"
    "stdout world3 =
       stdout empty_world @ (''Created output directory: '' @ output_dir) # progress_lines"
    using t2 [THEN conjunct2, THEN conjunct1] b by simp_all
  show ?thesis
    by (intro conjI)
      (fact script_used_world3 a present kept keep_me_no_artifact parents used_world3_artifacts
         content script_world3 b absent)+
qed

end
